theory Spec2Isabelle
  imports Main "HOL-Library.Word" "HOL-Library.Monad_Syntax"
begin

unbundle bit_operations_syntax

section \<open>Data model (private.h, miniloop.h)\<close>

text \<open>
  Pointers are addresses; address 0 is the null pointer. Every other address of a
  watcher or context is taken to hold an object (dangling pointers are not modelled).
  A function pointer is a number as well, 0 for a null callback.
\<close>

type_synonym ptr = nat

abbreviation NULL :: ptr where "NULL \<equiv> 0"

type_synonym event_bits = "32 word"

datatype ml_type_t =
    MINILOOP_IO_TYPE
  | MINILOOP_SIGNAL_TYPE
  | MINILOOP_TIMER_TYPE
  | MINILOOP_FS_TYPE
  | MINILOOP_EVENT_TYPE

text \<open>
  \<^verbatim>\<open>struct ml\<close>: the private members of \<^verbatim>\<open>ml_private_t\<close> followed by the public ones.
  The field \<^verbatim>\<open>x\<close> of the C struct is \<open>w_x\<close> here; \<^verbatim>\<open>u.t.timeout\<close> and
  \<^verbatim>\<open>u.t.period\<close> are \<open>w_timeout\<close> and \<open>w_period\<close>.
\<close>

record ml_t =
  w_next :: ptr
  w_prev :: ptr
  w_active :: int
  w_events :: event_bits
  w_cb :: nat
  w_arg :: nat
  w_timeout :: int
  w_period :: int
  w_type :: ml_type_t
  w_signo :: int
  w_fd :: int
  w_ctx :: ptr

text \<open>\<^verbatim>\<open>ml_ctx_t\<close>; the field \<^verbatim>\<open>x\<close> is \<open>c_x\<close>.\<close>

record ml_ctx_t =
  c_running :: int
  c_inotify_fd :: int
  c_fd :: int
  c_maxevents :: int
  c_watchers :: ptr
  c_workaround :: "32 word"

text \<open>Values of \<^verbatim>\<open><sys/epoll.h>\<close>, \<^verbatim>\<open><errno.h>\<close> and \<^verbatim>\<open><unistd.h>\<close> on Linux.\<close>

definition EPOLLIN :: event_bits where "EPOLLIN = 0x001"
definition EPOLLPRI :: event_bits where "EPOLLPRI = 0x002"
definition EPOLLOUT :: event_bits where "EPOLLOUT = 0x004"
definition EPOLLERR :: event_bits where "EPOLLERR = 0x008"
definition EPOLLHUP :: event_bits where "EPOLLHUP = 0x010"
definition EPOLLRDHUP :: event_bits where "EPOLLRDHUP = 0x2000"
definition EPOLLONESHOT :: event_bits where "EPOLLONESHOT = 0x40000000"
definition EPOLLET :: event_bits where "EPOLLET = 0x80000000"

definition EPERM :: int where "EPERM = 1"
definition EINTR :: int where "EINTR = 4"
definition EINVAL :: int where "EINVAL = 22"

definition STDIN_FILENO :: int where "STDIN_FILENO = 0"

text \<open>miniloop.h\<close>

definition MINILOOP_NONE :: event_bits where "MINILOOP_NONE = 0"
definition MINILOOP_ERROR :: event_bits where "MINILOOP_ERROR = EPOLLERR"
definition MINILOOP_READ :: event_bits where "MINILOOP_READ = EPOLLIN"
definition MINILOOP_WRITE :: event_bits where "MINILOOP_WRITE = EPOLLOUT"
definition MINILOOP_PRI :: event_bits where "MINILOOP_PRI = EPOLLPRI"
definition MINILOOP_HUP :: event_bits where "MINILOOP_HUP = EPOLLHUP"
definition MINILOOP_RDHUP :: event_bits where "MINILOOP_RDHUP = EPOLLRDHUP"
definition MINILOOP_EDGE :: event_bits where "MINILOOP_EDGE = EPOLLET"
definition MINILOOP_ONESHOT :: event_bits where "MINILOOP_ONESHOT = EPOLLONESHOT"

definition MINILOOP_MAX_EVENTS :: int where "MINILOOP_MAX_EVENTS = 10"

definition MINILOOP_ONCE :: "32 word" where "MINILOOP_ONCE = 1"
definition MINILOOP_NONBLOCK :: "32 word" where "MINILOOP_NONBLOCK = 2"

text \<open>private.h\<close>

definition MINILOOP_EVENT_MASK :: event_bits where
  "MINILOOP_EVENT_MASK =
     (MINILOOP_ERROR OR MINILOOP_READ OR MINILOOP_WRITE OR MINILOOP_PRI OR
      MINILOOP_RDHUP OR MINILOOP_HUP OR MINILOOP_EDGE OR MINILOOP_ONESHOT)"

section \<open>The kernel and the program state\<close>

text \<open>
  Everything the library does to the outside world is an action: a system call with the
  arguments the claims depend on, or the invocation of a user callback. The state keeps the
  actions in the order they happened. What a system call answers is decided by the
  kernel, here any function of the history and the call.

  The arguments are: \<open>Close fd\<close>; \<open>Epoll_ctl_add epfd fd events ptr\<close> and
  \<open>Epoll_ctl_mod epfd fd events ptr\<close> with the events and the data pointer of the
  \<^verbatim>\<open>struct epoll_event\<close>; \<open>Epoll_ctl_del epfd fd\<close>;
  \<open>Epoll_wait epfd maxevents timeout\<close>; \<open>Select_read nfds fd\<close> for a \<^verbatim>\<open>select\<close> with
  zero timeout on the read set \<open>{fd}\<close>; \<open>Ioctl_fionread fd\<close>; \<open>Read fd count\<close>;
  \<open>Sigaddset signo\<close> for the library call \<^verbatim>\<open>sigaddset(&mask, signo)\<close>, which fails for
  a number that is not a signal; \<open>Signalfd fd mask\<close> and \<open>Sigprocmask_block mask\<close> with
  the signals of the mask;
  \<open>Timerfd_disarm fd\<close>; \<open>Callback f w arg events\<close> for the call \<^verbatim>\<open>f(w, arg, events)\<close>.
\<close>

datatype action =
    Epoll_create1
  | Inotify_init1
  | Close int
  | Epoll_ctl_add int int event_bits ptr
  | Epoll_ctl_del int int
  | Epoll_ctl_mod int int event_bits ptr
  | Epoll_wait int int int
  | Select_read int int
  | Ioctl_fionread int
  | Read int int
  | Sigaddset int
  | Signalfd int "int list"
  | Sigprocmask_block "int list"
  | Timerfd_disarm int
  | Callback nat ptr nat event_bits

text \<open>
  The answer to a call: the return value, the error number the kernel sets when the return
  value is negative, the byte count an \<^verbatim>\<open>FIONREAD\<close> stores, and the ready
  records (events and data pointer) an \<^verbatim>\<open>epoll_wait\<close> stores.
\<close>

record response =
  r_ret :: int
  r_errno :: int
  r_n :: int
  r_ee :: "(event_bits \<times> ptr) list"

record state =
  wmem :: "ptr \<Rightarrow> ml_t"
  cmem :: "ptr \<Rightarrow> ml_ctx_t"
  errno :: int
  trace :: "action list"
  kernel :: "action list \<Rightarrow> action \<Rightarrow> response"

definition syscall :: "action \<Rightarrow> state \<Rightarrow> response \<times> state" where
  "syscall a s =
     (let r = kernel s (trace s) a
      in (r, s\<lparr>trace := trace s @ [a],
               errno := (if r_ret r < 0 then r_errno r else errno s)\<rparr>))"

definition upd_w :: "ptr \<Rightarrow> (ml_t \<Rightarrow> ml_t) \<Rightarrow> state \<Rightarrow> state" where
  "upd_w w f s = s\<lparr>wmem := (wmem s)(w := f (wmem s w))\<rparr>"

definition upd_c :: "ptr \<Rightarrow> (ml_ctx_t \<Rightarrow> ml_ctx_t) \<Rightarrow> state \<Rightarrow> state" where
  "upd_c c f s = s\<lparr>cmem := (cmem s)(c := f (cmem s c))\<rparr>"

text \<open>
  A function of the library returns \<open>Some (r, s')\<close>, its return value and the state it
  leaves, or \<open>None\<close> when it does not return: it dereferences a null pointer or loops
  for ever.
\<close>

type_synonym 'a prog = "state \<Rightarrow> ('a \<times> state) option"

text \<open>
  A user callback \<^verbatim>\<open>void cb(ml_t *w, void *arg, int events)\<close> is any function
  on the state. \<open>cbs\<close> maps a function pointer to the code it points to.
\<close>

type_synonym callback = "ptr \<Rightarrow> nat \<Rightarrow> event_bits \<Rightarrow> state \<Rightarrow> state option"

definition call_cb :: "(nat \<Rightarrow> callback) \<Rightarrow> nat \<Rightarrow> ptr \<Rightarrow> nat \<Rightarrow> event_bits \<Rightarrow> state \<Rightarrow> state option" where
  "call_cb cbs f w a ev s = cbs f w a ev (s\<lparr>trace := trace s @ [Callback f w a ev]\<rparr>)"

section \<open>List macros (private.h)\<close>

text \<open>
  \<^verbatim>\<open>_MINILOOP_INSERT(node, list)\<close> and \<^verbatim>\<open>_MINILOOP_REMOVE(node, list)\<close>, where
  \<^verbatim>\<open>list\<close> is always the \<^verbatim>\<open>watchers\<close> field of a context \<open>c\<close>. The callers
  guarantee that \<open>node\<close> and \<open>c\<close> are not null.
\<close>

definition MINILOOP_INSERT :: "ptr \<Rightarrow> ptr \<Rightarrow> state \<Rightarrow> state" where
  "MINILOOP_INSERT node c s =
     (let nxt = c_watchers (cmem s c);
          s1 = upd_c c (\<lambda>x. x\<lparr>c_watchers := node\<rparr>) s;
          s2 = (if nxt \<noteq> NULL then upd_w nxt (\<lambda>x. x\<lparr>w_prev := node\<rparr>) s1 else s1);
          s3 = upd_w node (\<lambda>x. x\<lparr>w_next := nxt\<rparr>) s2
      in upd_w node (\<lambda>x. x\<lparr>w_prev := NULL\<rparr>) s3)"

definition MINILOOP_REMOVE :: "ptr \<Rightarrow> ptr \<Rightarrow> state \<Rightarrow> state" where
  "MINILOOP_REMOVE node c s =
     (let prv = w_prev (wmem s node);
          nxt = w_next (wmem s node);
          s1 = (if prv \<noteq> NULL then upd_w prv (\<lambda>x. x\<lparr>w_next := nxt\<rparr>) s else s);
          s2 = (if nxt \<noteq> NULL then upd_w nxt (\<lambda>x. x\<lparr>w_prev := prv\<rparr>) s1 else s1);
          s3 = upd_w node (\<lambda>x. x\<lparr>w_prev := NULL\<rparr>) s2;
          s4 = upd_w node (\<lambda>x. x\<lparr>w_next := NULL\<rparr>) s3
      in if c_watchers (cmem s4 c) = node
         then upd_c c (\<lambda>x. x\<lparr>c_watchers := nxt\<rparr>) s4 else s4)"

section \<open>Generic watchers (miniloop.c)\<close>

text \<open>
  The functions \<^verbatim>\<open>_init\<close>, \<^verbatim>\<open>_ml_watcher_init\<close>, ... of the source are named without
  the leading underscore.
\<close>

definition init :: "ptr \<Rightarrow> int \<Rightarrow> int prog" where
  "init ctx close_old s =
     (let (r1, s1) = syscall Epoll_create1 s;
          fd = r_ret r1;
          (r2, s2) = syscall Inotify_init1 s1;
          inotify_fd = r_ret r2
      in if fd < 0 \<or> inotify_fd < 0 then Some (-1, s2)
         else if ctx = NULL then None
         else
           (let s3 = (if close_old \<noteq> 0
                      then snd (syscall (Close (c_fd (cmem s2 ctx)))
                             (snd (syscall (Close (c_inotify_fd (cmem s2 ctx))) s2)))
                      else s2)
            in Some (0, upd_c ctx (\<lambda>x. x\<lparr>c_fd := fd\<rparr>)
                          (upd_c ctx (\<lambda>x. x\<lparr>c_inotify_fd := inotify_fd\<rparr>) s3))))"

definition has_data :: "int \<Rightarrow> state \<Rightarrow> int \<times> state" where
  "has_data fd s =
     (let (r1, s1) = syscall (Select_read 1 fd) s
      in if r_ret r1 > 0
         then (let (r2, s2) = syscall (Ioctl_fionread 0) s1
               in (if r_ret r2 = 0 \<and> r_n r2 > 0 then 1 else 0, s2))
         else (0, s1))"

definition ml_watcher_init ::
  "ptr \<Rightarrow> ptr \<Rightarrow> ml_type_t \<Rightarrow> nat \<Rightarrow> nat \<Rightarrow> int \<Rightarrow> event_bits \<Rightarrow> int prog" where
  "ml_watcher_init ctx w type cb arg fd events s =
     (if ctx = NULL \<or> w = NULL then Some (-1, s\<lparr>errno := EINVAL\<rparr>)
      else Some (0, upd_w w (\<lambda>x. x\<lparr>w_ctx := ctx, w_type := type, w_active := 0,
                                   w_fd := fd, w_cb := cb, w_arg := arg,
                                   w_events := events\<rparr>) s))"

definition ml_watcher_active :: "ptr \<Rightarrow> state \<Rightarrow> int" where
  "ml_watcher_active w s =
     (if w = NULL then 0 else if w_active (wmem s w) > 0 then 1 else 0)"

definition ml_watcher_start :: "ptr \<Rightarrow> int prog" where
  "ml_watcher_start w s =
     (if w = NULL \<or> w_fd (wmem s w) < 0 \<or> w_ctx (wmem s w) = NULL
      then Some (-1, s\<lparr>errno := EINVAL\<rparr>)
      else if ml_watcher_active w s \<noteq> 0 then Some (0, s)
      else
        (let c = w_ctx (wmem s w);
             (r, s1) = syscall (Epoll_ctl_add (c_fd (cmem s c)) (w_fd (wmem s w))
                                  (w_events (wmem s w) OR EPOLLRDHUP) w) s
         in if r_ret r < 0 then
              (if errno s1 \<noteq> EPERM then Some (-1, s1)
               else if w_type (wmem s1 w) \<noteq> MINILOOP_IO_TYPE
                       \<or> w_events (wmem s1 w) \<noteq> MINILOOP_READ then Some (-1, s1)
               else if w_fd (wmem s1 w) \<noteq> STDIN_FILENO then Some (-1, s1)
               else Some (0, MINILOOP_INSERT w c
                               (upd_w w (\<lambda>x. x\<lparr>w_active := -1\<rparr>)
                                  (upd_c c (\<lambda>x. x\<lparr>c_workaround := 1\<rparr>) s1))))
            else Some (0, MINILOOP_INSERT w c (upd_w w (\<lambda>x. x\<lparr>w_active := 1\<rparr>) s1))))"

definition ml_watcher_stop :: "ptr \<Rightarrow> int prog" where
  "ml_watcher_stop w s =
     (if w = NULL then Some (-1, s\<lparr>errno := EINVAL\<rparr>)
      else if ml_watcher_active w s = 0 then Some (0, s)
      else
        (let s1 = upd_w w (\<lambda>x. x\<lparr>w_active := 0\<rparr>) s;
             c = w_ctx (wmem s1 w)
         in if c = NULL then None
            else
              (let s2 = MINILOOP_REMOVE w c s1;
                   (r, s3) = syscall (Epoll_ctl_del (c_fd (cmem s2 c)) (w_fd (wmem s2 w))) s2
               in Some (if r_ret r < 0 then -1 else 0, s3))))"

definition ml_watcher_rearm :: "ptr \<Rightarrow> int prog" where
  "ml_watcher_rearm w s =
     (if w = NULL \<or> w_fd (wmem s w) < 0 then Some (-1, s\<lparr>errno := EINVAL\<rparr>)
      else
        (let c = w_ctx (wmem s w)
         in if c = NULL then None
            else
              (let (r, s1) = syscall (Epoll_ctl_mod (c_fd (cmem s c)) (w_fd (wmem s w))
                                        (w_events (wmem s w) OR EPOLLRDHUP) w) s
               in Some (if r_ret r < 0 then -1 else 0, s1))))"

section \<open>I/O watchers (io.c)\<close>

definition ml_io_init :: "ptr \<Rightarrow> ptr \<Rightarrow> nat \<Rightarrow> nat \<Rightarrow> int \<Rightarrow> event_bits \<Rightarrow> int prog" where
  "ml_io_init ctx w cb arg fd events s =
     (if fd < 0 then Some (-1, s\<lparr>errno := EINVAL\<rparr>)
      else
        (case ml_watcher_init ctx w MINILOOP_IO_TYPE cb arg fd events s of
           None \<Rightarrow> None
         | Some (r, s1) \<Rightarrow> if r \<noteq> 0 then Some (-1, s1) else ml_watcher_start w s1))"

definition ml_io_stop :: "ptr \<Rightarrow> int prog" where
  "ml_io_stop w s = ml_watcher_stop w s"

definition ml_io_set :: "ptr \<Rightarrow> int \<Rightarrow> event_bits \<Rightarrow> int prog" where
  "ml_io_set w fd events s =
     (if events AND MINILOOP_ONESHOT \<noteq> 0 \<and> ml_watcher_active w s \<noteq> 0
      then ml_watcher_rearm w s
      else
        (case ml_io_stop w s of
           None \<Rightarrow> None
         | Some (_, s1) \<Rightarrow>
             if w = NULL then None
             else ml_io_init (w_ctx (wmem s1 w)) w (w_cb (wmem s1 w)) (w_arg (wmem s1 w))
                    fd events s1))"

definition ml_io_start :: "ptr \<Rightarrow> int prog" where
  "ml_io_start w s =
     (if w = NULL then None
      else ml_io_set w (w_fd (wmem s w)) (w_events (wmem s w)) s)"

section \<open>Signal watchers (signal.c)\<close>

text \<open>
  \<^verbatim>\<open>ml_signal_set\<close> calls \<^verbatim>\<open>ml_signal_init\<close> for a watcher without descriptor, and
  \<^verbatim>\<open>ml_signal_init\<close> calls \<^verbatim>\<open>ml_signal_set\<close> once the watcher has one.
  The result of \<^verbatim>\<open>sigaddset\<close> is not looked at: when it fails, the mask that is blocked
  and subscribed is the empty one that \<^verbatim>\<open>sigemptyset\<close> has left.
\<close>

function ml_signal_init :: "ptr \<Rightarrow> ptr \<Rightarrow> nat \<Rightarrow> nat \<Rightarrow> int \<Rightarrow> int prog"
  and ml_signal_set :: "ptr \<Rightarrow> int \<Rightarrow> int prog" where
  "ml_signal_init ctx w cb arg signo s =
     (if w = NULL \<or> ctx = NULL then Some (-1, s\<lparr>errno := EINVAL\<rparr>)
      else
        (let s1 = upd_w w (\<lambda>x. x\<lparr>w_fd := -1\<rparr>) s;
             (r, s2) = syscall (Signalfd (-1) []) s1;
             fd = r_ret r
         in if fd < 0 then Some (-1, s2)
            else
              (case ml_watcher_init ctx w MINILOOP_SIGNAL_TYPE cb arg fd MINILOOP_READ s2 of
                 None \<Rightarrow> None
               | Some (r1, s3) \<Rightarrow>
                   if r1 \<noteq> 0 then Some (-1, snd (syscall (Close fd) s3))
                   else
                     (case ml_signal_set w signo s3 of
                        None \<Rightarrow> None
                      | Some (r2, s4) \<Rightarrow>
                          if r2 \<noteq> 0 then
                            (case ml_watcher_stop w s4 of
                               None \<Rightarrow> None
                             | Some (_, s5) \<Rightarrow> Some (-1, snd (syscall (Close fd) s5)))
                          else Some (0, s4)))))"
| "ml_signal_set w signo s =
     (if w = NULL \<or> w_ctx (wmem s w) = NULL then Some (-1, s\<lparr>errno := EINVAL\<rparr>)
      else
        (let s1 = upd_w w (\<lambda>x. x\<lparr>w_signo := signo\<rparr>) s
         in case (if w_fd (wmem s1 w) < 0
                  then ml_signal_init (w_ctx (wmem s1 w)) w (w_cb (wmem s1 w))
                         (w_arg (wmem s1 w)) signo s1
                  else Some (0, s1)) of
              None \<Rightarrow> None
            | Some (r0, s2) \<Rightarrow>
                if r0 \<noteq> 0 then Some (-1, s2)
                else
                  (let (ra, sa) = syscall (Sigaddset signo) s2;
                       mask = (if r_ret ra < 0 then [] else [signo]);
                       (r1, s3) = syscall (Sigprocmask_block mask) sa
                   in if r_ret r1 = -1 then Some (-1, s3)
                      else
                        (let (r2, s4) = syscall (Signalfd (w_fd (wmem s3 w)) mask) s3
                         in if r_ret r2 < 0 then Some (-1, s4)
                            else ml_watcher_start w s4))))"
  by pat_completeness auto
termination
proof (relation "measure (\<lambda>x. case x of
            Inl _ \<Rightarrow> 1
          | Inr (w, signo, s) \<Rightarrow> (if w_fd (wmem s w) < 0 then 2 else 0))")
qed (auto simp: ml_watcher_init_def upd_w_def split: if_splits)

declare ml_signal_init.simps [simp del]
declare ml_signal_set.simps [simp del]

definition ml_signal_stop :: "ptr \<Rightarrow> int prog" where
  "ml_signal_stop w s =
     (if ml_watcher_active w s = 0 then Some (0, s)
      else
        (case ml_watcher_stop w s of
           None \<Rightarrow> None
         | Some (r, s1) \<Rightarrow>
             if r \<noteq> 0 then Some (-1, s1)
             else Some (0, upd_w w (\<lambda>x. x\<lparr>w_fd := -1\<rparr>)
                             (snd (syscall (Close (w_fd (wmem s1 w))) s1)))))"

definition ml_signal_start :: "ptr \<Rightarrow> int prog" where
  "ml_signal_start w s =
     (if w = NULL then Some (-1, s\<lparr>errno := EINVAL\<rparr>)
      else
        (case (if w_fd (wmem s w) \<noteq> -1 then ml_signal_stop w s else Some (0, s)) of
           None \<Rightarrow> None
         | Some (_, s1) \<Rightarrow> ml_signal_set w (w_signo (wmem s1 w)) s1))"

section \<open>Timer and event watchers\<close>

text \<open>
  timer.c and event.c are not among the sources at hand. The three functions of theirs that
  miniloop.c calls are parameters of the dispatcher, so what is proved of \<^verbatim>\<open>ml_run\<close>
  holds whatever they do. Where a property depends on how timers and events are stopped
  (registry coherence at \<^verbatim>\<open>ml_exit\<close>), the two stop functions are the ones modelled
  below.
\<close>

record ext_ops =
  x_timer_set :: "ptr \<Rightarrow> int \<Rightarrow> int \<Rightarrow> int prog"
  x_timer_stop :: "ptr \<Rightarrow> int prog"
  x_event_stop :: "ptr \<Rightarrow> int prog"

text \<open>
  Modelled from the spec: \<^verbatim>\<open>ml_timer_stop\<close> of timer.c, which is missing. The spec
  says of the timer adapter: "stop disarms, deregisters, closes the fd", and of every
  operation that it rejects a null watcher with an invalid-argument error.
\<close>

definition ml_timer_stop :: "ptr \<Rightarrow> int prog" where
  "ml_timer_stop w s =
     (if w = NULL then Some (-1, s\<lparr>errno := EINVAL\<rparr>)
      else
        (case ml_watcher_stop w (snd (syscall (Timerfd_disarm (w_fd (wmem s w))) s)) of
           None \<Rightarrow> None
         | Some (r, s1) \<Rightarrow>
             Some (if r \<noteq> 0 then -1 else 0, snd (syscall (Close (w_fd (wmem s1 w))) s1))))"

text \<open>
  Modelled from the spec: \<^verbatim>\<open>ml_event_stop\<close> of event.c, which is missing. The spec
  says of the event adapter: "stop deregisters and closes the fd".
\<close>

definition ml_event_stop :: "ptr \<Rightarrow> int prog" where
  "ml_event_stop w s =
     (if w = NULL then Some (-1, s\<lparr>errno := EINVAL\<rparr>)
      else
        (case ml_watcher_stop w s of
           None \<Rightarrow> None
         | Some (r, s1) \<Rightarrow>
             Some (if r \<noteq> 0 then -1 else 0, snd (syscall (Close (w_fd (wmem s1 w))) s1))))"

section \<open>The context and the dispatcher (miniloop.c)\<close>

definition ctx_zero :: ml_ctx_t where
  "ctx_zero = \<lparr>c_running = 0, c_inotify_fd = 0, c_fd = 0, c_maxevents = 0,
               c_watchers = NULL, c_workaround = 0\<rparr>"

definition ml_init :: "ptr \<Rightarrow> int \<Rightarrow> int prog" where
  "ml_init ctx maxevents s =
     (if ctx = NULL \<or> maxevents < 1 then Some (-1, s\<lparr>errno := EINVAL\<rparr>)
      else init ctx 0 (upd_c ctx (\<lambda>x. x\<lparr>c_maxevents := maxevents\<rparr>)
                         (upd_c ctx (\<lambda>_. ctx_zero) s)))"

text \<open>The body of \<^verbatim>\<open>switch (w->type)\<close> in \<^verbatim>\<open>ml_exit\<close>.\<close>

definition ml_exit_stop :: "ext_ops \<Rightarrow> ptr \<Rightarrow> int prog" where
  "ml_exit_stop X w s =
     (case w_type (wmem s w) of
        MINILOOP_TIMER_TYPE \<Rightarrow> x_timer_stop X w s
      | MINILOOP_IO_TYPE \<Rightarrow> ml_io_stop w s
      | MINILOOP_SIGNAL_TYPE \<Rightarrow> ml_signal_stop w s
      | MINILOOP_FS_TYPE \<Rightarrow> Some (0, s)
      | MINILOOP_EVENT_TYPE \<Rightarrow> x_event_stop X w s)"

text \<open>
  The loop \<^verbatim>\<open>_MINILOOP_FOREACH(w, ctx->watchers)\<close> of \<^verbatim>\<open>ml_exit\<close>, from the node
  \<open>node\<close> on: the macro reads \<^verbatim>\<open>node->next\<close> before the body runs.
\<close>

partial_function (option) ml_exit_loop :: "ext_ops \<Rightarrow> ptr \<Rightarrow> ptr \<Rightarrow> state \<Rightarrow> state option" where
  "ml_exit_loop X ctx node s =
     (if node = NULL then Some s
      else
        (let nxt = w_next (wmem s node);
             s1 = MINILOOP_REMOVE node ctx s
         in if ml_watcher_active node s1 = 0 then ml_exit_loop X ctx nxt s1
            else
              (case ml_exit_stop X node s1 of
                 None \<Rightarrow> None
               | Some (_, s2) \<Rightarrow> ml_exit_loop X ctx nxt s2)))"

definition ml_exit :: "ext_ops \<Rightarrow> ptr \<Rightarrow> int prog" where
  "ml_exit X ctx s =
     (if ctx = NULL then Some (-1, s\<lparr>errno := EINVAL\<rparr>)
      else
        (case ml_exit_loop X ctx (c_watchers (cmem s ctx)) s of
           None \<Rightarrow> None
         | Some s1 \<Rightarrow>
             (let s2 = upd_c ctx (\<lambda>x. x\<lparr>c_watchers := NULL\<rparr>) s1;
                  s3 = upd_c ctx (\<lambda>x. x\<lparr>c_running := 0\<rparr>) s2;
                  s4 = (if c_fd (cmem s3 ctx) > -1
                        then snd (syscall (Close (c_fd (cmem s3 ctx))) s3) else s3)
              in Some (0, upd_c ctx (\<lambda>x. x\<lparr>c_fd := -1\<rparr>) s4))))"

text \<open>
  \<^verbatim>\<open>ml_run\<close>, first loop: "start all dormant timers", from the node \<open>node\<close> on.
\<close>

partial_function (option) ml_run_timers :: "ext_ops \<Rightarrow> ptr \<Rightarrow> state \<Rightarrow> state option" where
  "ml_run_timers X node s =
     (if node = NULL then Some s
      else
        (let nxt = w_next (wmem s node)
         in if MINILOOP_TIMER_TYPE = w_type (wmem s node)
            then
              (case x_timer_set X node (w_timeout (wmem s node)) (w_period (wmem s node)) s of
                 None \<Rightarrow> None
               | Some (_, s1) \<Rightarrow> ml_run_timers X nxt s1)
            else ml_run_timers X nxt s))"

text \<open>
  The body of the workaround pass for one watcher with \<^verbatim>\<open>active == -1\<close> and a callback:
  the probe, the removal when the probe is empty, and the callback. \<^verbatim>\<open>rerun++\<close> is
  done by the loop below.
\<close>

definition ml_run_pseudo :: "(nat \<Rightarrow> callback) \<Rightarrow> ptr \<Rightarrow> ptr \<Rightarrow> state \<Rightarrow> state option" where
  "ml_run_pseudo cbs ctx w s =
     (let (d, s1) = has_data (w_fd (wmem s w)) s;
          s2 = (if d = 0
                then MINILOOP_REMOVE w ctx (upd_w w (\<lambda>x. x\<lparr>w_active := 0\<rparr>) s1)
                else s1)
      in call_cb cbs (w_cb (wmem s2 w)) w (w_arg (wmem s2 w)) MINILOOP_READ s2)"

text \<open>
  The workaround pass \<^verbatim>\<open>_MINILOOP_FOREACH(w, ctx->watchers)\<close> from the node \<open>node\<close>
  on, with the value of \<^verbatim>\<open>rerun\<close> so far. It returns the final \<^verbatim>\<open>rerun\<close>.
\<close>

partial_function (option) ml_run_workaround ::
  "(nat \<Rightarrow> callback) \<Rightarrow> ptr \<Rightarrow> ptr \<Rightarrow> int \<Rightarrow> state \<Rightarrow> (int \<times> state) option" where
  "ml_run_workaround cbs ctx node rerun s =
     (if node = NULL then Some (rerun, s)
      else
        (let nxt = w_next (wmem s node)
         in if w_active (wmem s node) \<noteq> -1 \<or> w_cb (wmem s node) = 0
            then ml_run_workaround cbs ctx nxt rerun s
            else
              (case ml_run_pseudo cbs ctx node s of
                 None \<Rightarrow> None
               | Some s1 \<Rightarrow> ml_run_workaround cbs ctx nxt (rerun + 1) s1)))"

text \<open>
  The kernel wait \<^verbatim>\<open>while ((nfds = epoll_wait(...)) < 0)\<close>. \<open>Inl (nfds, ee)\<close> is the
  value of \<^verbatim>\<open>nfds\<close> and the ready records with which the loop is left, \<open>Inr r\<close> the
  value \<^verbatim>\<open>ml_run\<close> returns from inside it. The array \<^verbatim>\<open>ee\<close> has
  \<^verbatim>\<open>MINILOOP_MAX_EVENTS\<close> slots, while \<^verbatim>\<open>ctx->maxevents\<close> is any number from 1 on:
  when the kernel stores more records than the array holds, it writes past the array, and
  what the program does then is undefined.
\<close>

partial_function (option) ml_run_wait ::
  "ext_ops \<Rightarrow> ptr \<Rightarrow> int \<Rightarrow> state \<Rightarrow> (((int \<times> (event_bits \<times> ptr) list) + int) \<times> state) option" where
  "ml_run_wait X ctx timeout s =
     (let (r, s1) = syscall (Epoll_wait (c_fd (cmem s ctx)) (c_maxevents (cmem s ctx)) timeout) s;
          nfds = r_ret r
      in if nfds > MINILOOP_MAX_EVENTS then None
         else if nfds < 0 then
           (if c_running (cmem s1 ctx) = 0 then Some (Inl (nfds, r_ee r), s1)
            else if EINTR = errno s1 then ml_run_wait X ctx timeout s1
            else (case ml_exit X ctx s1 of
                    None \<Rightarrow> None
                  | Some (_, s2) \<Rightarrow> Some (Inr (-2), s2)))
         else Some (Inl (nfds, r_ee r), s1))"

text \<open>
  The kind-specific handling before the callback, \<^verbatim>\<open>switch (w->type)\<close> in the
  dispatch loop. It returns the value of \<^verbatim>\<open>events\<close> after the switch. The reads ask
  for \<^verbatim>\<open>sizeof(struct signalfd_siginfo)\<close>, 128 bytes, and \<^verbatim>\<open>sizeof(uint64_t)\<close>.
\<close>

definition ml_run_switch :: "ext_ops \<Rightarrow> ptr \<Rightarrow> event_bits \<Rightarrow> event_bits prog" where
  "ml_run_switch X w events s =
     (case w_type (wmem s w) of
        MINILOOP_IO_TYPE \<Rightarrow>
          if events AND (EPOLLHUP OR EPOLLERR) \<noteq> 0
          then (case ml_io_stop w s of None \<Rightarrow> None | Some (_, s1) \<Rightarrow> Some (events, s1))
          else Some (events, s)
      | MINILOOP_SIGNAL_TYPE \<Rightarrow>
          (let (r, s1) = syscall (Read (w_fd (wmem s w)) 128) s
           in if r_ret r \<noteq> 128 then
                (case ml_signal_start w s1 of
                   None \<Rightarrow> None
                 | Some (r1, s2) \<Rightarrow>
                     if r1 \<noteq> 0 then
                       (case ml_signal_stop w s2 of
                          None \<Rightarrow> None
                        | Some (_, s3) \<Rightarrow> Some (MINILOOP_ERROR, s3))
                     else Some (events, s2))
              else Some (events, s1))
      | MINILOOP_TIMER_TYPE \<Rightarrow>
          (let (r, s1) = syscall (Read (w_fd (wmem s w)) 8) s
           in case (if r_ret r \<noteq> 8
                    then (case x_timer_stop X w s1 of
                            None \<Rightarrow> None
                          | Some (_, s2) \<Rightarrow> Some (MINILOOP_ERROR, s2))
                    else Some (events, s1)) of
                None \<Rightarrow> None
              | Some (ev, s2) \<Rightarrow>
                  (let s3 = (if w_period (wmem s2 w) = 0
                             then upd_w w (\<lambda>x. x\<lparr>w_timeout := 0\<rparr>) s2 else s2)
                   in if w_timeout (wmem s3 w) = 0
                      then (case x_timer_stop X w s3 of
                              None \<Rightarrow> None
                            | Some (_, s4) \<Rightarrow> Some (ev, s4))
                      else Some (ev, s3)))
      | MINILOOP_FS_TYPE \<Rightarrow> Some (events, s)
      | MINILOOP_EVENT_TYPE \<Rightarrow>
          (let (r, s1) = syscall (Read (w_fd (wmem s w)) 8) s
           in Some (if r_ret r \<noteq> 8 then MINILOOP_HUP else events, s1)))"

text \<open>
  The body of the dispatch loop for the ready record \<open>(events, w)\<close>:
  \<^verbatim>\<open>w = ee[i].data.ptr; events = ee[i].events;\<close>, the switch, and the callback.
\<close>

definition ml_run_record ::
  "ext_ops \<Rightarrow> (nat \<Rightarrow> callback) \<Rightarrow> event_bits \<times> ptr \<Rightarrow> state \<Rightarrow> state option" where
  "ml_run_record X cbs e s =
     (let events = fst e; w = snd e
      in if w = NULL then None
         else
           (case ml_run_switch X w events s of
              None \<Rightarrow> None
            | Some (ev, s1) \<Rightarrow>
                if w_cb (wmem s1 w) \<noteq> 0
                then call_cb cbs (w_cb (wmem s1 w)) w (w_arg (wmem s1 w))
                       (ev AND MINILOOP_EVENT_MASK) s1
                else Some s1))"

text \<open>
  The dispatch loop \<^verbatim>\<open>for (i = 0; ctx->running && i < nfds; i++)\<close> over the ready
  records \<^verbatim>\<open>ee[i], ..., ee[nfds - 1]\<close> that are left.
\<close>

fun ml_run_dispatch ::
  "ext_ops \<Rightarrow> (nat \<Rightarrow> callback) \<Rightarrow> ptr \<Rightarrow> (event_bits \<times> ptr) list \<Rightarrow> state \<Rightarrow> state option" where
  "ml_run_dispatch X cbs ctx [] s = Some s"
| "ml_run_dispatch X cbs ctx (e # ee) s =
     (if c_running (cmem s ctx) = 0 then Some s
      else
        (case ml_run_record X cbs e s of
           None \<Rightarrow> None
         | Some s1 \<Rightarrow> ml_run_dispatch X cbs ctx ee s1))"

text \<open>
  One iteration of \<^verbatim>\<open>while (ctx->running && ctx->watchers)\<close>, and how it ends: with
  \<^verbatim>\<open>continue\<close> (or by reaching the end of the body), with \<^verbatim>\<open>break\<close>, or with
  \<^verbatim>\<open>return\<close>. The kernel stores \<^verbatim>\<open>nfds\<close> ready records, so the records of
  the dispatch loop are the first \<^verbatim>\<open>nfds\<close> of the answer.
\<close>

datatype control = Continue | Break | Return int

definition ml_run_iteration ::
  "ext_ops \<Rightarrow> (nat \<Rightarrow> callback) \<Rightarrow> ptr \<Rightarrow> 32 word \<Rightarrow> int \<Rightarrow> state \<Rightarrow> (control \<times> state) option" where
  "ml_run_iteration X cbs ctx flags timeout s =
     (case (if c_workaround (cmem s ctx) \<noteq> 0
            then ml_run_workaround cbs ctx (c_watchers (cmem s ctx)) 0 s
            else Some (0, s)) of
        None \<Rightarrow> None
      | Some (rerun, s1) \<Rightarrow>
          if rerun \<noteq> 0 then Some (Continue, s1)
          else
            (case ml_run_wait X ctx timeout (upd_c ctx (\<lambda>x. x\<lparr>c_workaround := 0\<rparr>) s1) of
               None \<Rightarrow> None
             | Some (Inr r, s3) \<Rightarrow> Some (Return r, s3)
             | Some (Inl (nfds, ee), s3) \<Rightarrow>
                 (case ml_run_dispatch X cbs ctx (take (nat nfds) ee) s3 of
                    None \<Rightarrow> None
                  | Some s4 \<Rightarrow>
                      Some (if flags AND MINILOOP_ONCE \<noteq> 0 then Break else Continue, s4))))"

partial_function (option) ml_run_loop ::
  "ext_ops \<Rightarrow> (nat \<Rightarrow> callback) \<Rightarrow> ptr \<Rightarrow> 32 word \<Rightarrow> int \<Rightarrow> int prog" where
  "ml_run_loop X cbs ctx flags timeout s =
     (if c_running (cmem s ctx) \<noteq> 0 \<and> c_watchers (cmem s ctx) \<noteq> NULL
      then
        (case ml_run_iteration X cbs ctx flags timeout s of
           None \<Rightarrow> None
         | Some (Continue, s1) \<Rightarrow> ml_run_loop X cbs ctx flags timeout s1
         | Some (Break, s1) \<Rightarrow> Some (0, s1)
         | Some (Return r, s1) \<Rightarrow> Some (r, s1))
      else Some (0, s))"

text \<open>
  \<open>n\<close> iterations of the main loop that each end with \<^verbatim>\<open>continue\<close> or at the end of
  the body: the state in which the iteration after them begins.
\<close>

fun ml_run_iterations ::
  "ext_ops \<Rightarrow> (nat \<Rightarrow> callback) \<Rightarrow> ptr \<Rightarrow> 32 word \<Rightarrow> int \<Rightarrow> nat \<Rightarrow> state \<Rightarrow> state option" where
  "ml_run_iterations X cbs ctx flags timeout 0 s = Some s"
| "ml_run_iterations X cbs ctx flags timeout (Suc n) s =
     (if c_running (cmem s ctx) \<noteq> 0 \<and> c_watchers (cmem s ctx) \<noteq> NULL
      then
        (case ml_run_iteration X cbs ctx flags timeout s of
           Some (Continue, s1) \<Rightarrow> ml_run_iterations X cbs ctx flags timeout n s1
         | _ \<Rightarrow> None)
      else None)"

definition ml_run :: "ext_ops \<Rightarrow> (nat \<Rightarrow> callback) \<Rightarrow> ptr \<Rightarrow> 32 word \<Rightarrow> int prog" where
  "ml_run X cbs ctx flags s =
     (if ctx = NULL \<or> c_fd (cmem s ctx) < 0 then Some (-1, s\<lparr>errno := EINVAL\<rparr>)
      else
        (let timeout = (if flags AND MINILOOP_NONBLOCK \<noteq> 0 then 0 else -1);
             s1 = upd_c ctx (\<lambda>x. x\<lparr>c_running := 1\<rparr>) s
         in case ml_run_timers X (c_watchers (cmem s1 ctx)) s1 of
              None \<Rightarrow> None
            | Some s2 \<Rightarrow> ml_run_loop X cbs ctx flags timeout s2))"

section \<open>The watcher registry\<close>

text \<open>
  \<open>dll h prv p xs\<close>: following \<^verbatim>\<open>next\<close> from the pointer \<open>p\<close> in the watcher memory
  \<open>h\<close> visits exactly the nodes \<open>xs\<close> and ends at the null pointer, and every node's
  \<^verbatim>\<open>prev\<close> is the node before it (\<open>prv\<close> for the first one).
\<close>

fun dll :: "(ptr \<Rightarrow> ml_t) \<Rightarrow> ptr \<Rightarrow> ptr \<Rightarrow> ptr list \<Rightarrow> bool" where
  "dll h prv p [] = (p = NULL)"
| "dll h prv p (x # xs) =
     (p = x \<and> x \<noteq> NULL \<and> w_prev (h x) = prv \<and> dll h x (w_next (h x)) xs)"

text \<open>The nodes on the watcher list of the context \<open>c\<close>, front to back.\<close>

definition watcher_list :: "state \<Rightarrow> ptr \<Rightarrow> ptr list \<Rightarrow> bool" where
  "watcher_list s c xs = dll (wmem s) NULL (c_watchers (cmem s c)) xs"

text \<open>
  Registry coherence: a watcher is on the list of a context exactly when its
  \<^verbatim>\<open>active\<close> is not 0 and the context is its own, and every such watcher has a context.
\<close>

definition registry_coherent :: "state \<Rightarrow> bool" where
  "registry_coherent s =
     ((\<forall>c. c \<noteq> NULL \<longrightarrow>
         (\<exists>xs. watcher_list s c xs
            \<and> (\<forall>w. w \<noteq> NULL \<longrightarrow>
                  (w \<in> set xs) = (w_active (wmem s w) \<noteq> 0 \<and> w_ctx (wmem s w) = c))))
      \<and> (\<forall>w. w \<noteq> NULL \<and> w_active (wmem s w) \<noteq> 0 \<longrightarrow> w_ctx (wmem s w) \<noteq> NULL))"

text \<open>
  A state without the standard-input workaround: every watcher has \<^verbatim>\<open>active\<close> 0 or 1
  (none is pseudo-registered), none is of the kind \<^verbatim>\<open>MINILOOP_FS_TYPE\<close>, which no
  adapter creates and \<^verbatim>\<open>ml_exit\<close> does not stop, and the kernel never answers
  \<^verbatim>\<open>EPERM\<close>.
\<close>

definition regular :: "state \<Rightarrow> bool" where
  "regular s =
     ((\<forall>w. w \<noteq> NULL \<longrightarrow> w_active (wmem s w) = 0 \<or> w_active (wmem s w) = 1)
      \<and> (\<forall>w. w \<noteq> NULL \<longrightarrow> w_type (wmem s w) \<noteq> MINILOOP_FS_TYPE)
      \<and> (\<forall>h a. r_ret (kernel s h a) < 0 \<longrightarrow> r_errno (kernel s h a) \<noteq> EPERM))"

text \<open>Two states with the same links and the same list heads.\<close>

definition same_links :: "state \<Rightarrow> state \<Rightarrow> bool" where
  "same_links s' t =
     ((\<forall>y. w_next (wmem s' y) = w_next (wmem t y) \<and> w_prev (wmem s' y) = w_prev (wmem t y))
      \<and> (\<forall>c. c_watchers (cmem s' c) = c_watchers (cmem t c)))"

text \<open>
  What stopping the active watcher \<open>w\<close> of the context \<open>c\<close> does to a state \<open>t\<close>: the
  links are those that \<^verbatim>\<open>_MINILOOP_REMOVE\<close> leaves, and \<open>w\<close> is inactive.
\<close>

definition stopped :: "ptr \<Rightarrow> ptr \<Rightarrow> state \<Rightarrow> state \<Rightarrow> bool" where
  "stopped w c t t' =
     (same_links t' (MINILOOP_REMOVE w c t)
      \<and> (\<forall>y. w_active (wmem t' y) = (if y = w then 0 else w_active (wmem t y)))
      \<and> (\<forall>y. w_ctx (wmem t' y) = w_ctx (wmem t y) \<and> w_type (wmem t' y) = w_type (wmem t y))
      \<and> kernel t' = kernel t)"

text \<open>
  The operations of claim C6: the generic start and stop of a watcher, and the exit of a
  context. A sequence of them runs as long as each one returns.
\<close>

datatype operation = Start ptr | Stop ptr | Exit ptr

fun apply_op :: "ext_ops \<Rightarrow> operation \<Rightarrow> state \<Rightarrow> state option" where
  "apply_op X (Start w) s = map_option snd (ml_watcher_start w s)"
| "apply_op X (Stop w) s = map_option snd (ml_watcher_stop w s)"
| "apply_op X (Exit c) s = map_option snd (ml_exit X c s)"

fun apply_ops :: "ext_ops \<Rightarrow> operation list \<Rightarrow> state \<Rightarrow> state option" where
  "apply_ops X [] s = Some s"
| "apply_ops X (a # as) s =
     (case apply_op X a s of None \<Rightarrow> None | Some s1 \<Rightarrow> apply_ops X as s1)"

section \<open>Example states\<close>

text \<open>Answers of the kernel: success with a return value, failure with an error number.\<close>

definition answer :: "int \<Rightarrow> response" where
  "answer v = \<lparr>r_ret = v, r_errno = 0, r_n = 0, r_ee = []\<rparr>"

definition failure :: "int \<Rightarrow> response" where
  "failure e = \<lparr>r_ret = -1, r_errno = e, r_n = 0, r_ee = []\<rparr>"

definition w_zero :: ml_t where
  "w_zero = \<lparr>w_next = NULL, w_prev = NULL, w_active = 0, w_events = 0, w_cb = 0, w_arg = 0,
             w_timeout = 0, w_period = 0, w_type = MINILOOP_IO_TYPE, w_signo = 0, w_fd = 0,
             w_ctx = NULL\<rparr>"

text \<open>A context as \<^verbatim>\<open>ml_init(ctx, 10)\<close> leaves it when the kernel hands out 3 and 4.\<close>

definition ex_ctx :: ml_ctx_t where
  "ex_ctx = \<lparr>c_running = 0, c_inotify_fd = 4, c_fd = 3, c_maxevents = 10,
             c_watchers = NULL, c_workaround = 0\<rparr>"

text \<open>
  Nothing is initialised yet, and the kernel has a descriptor for \<^verbatim>\<open>epoll_create1\<close>
  but none for \<^verbatim>\<open>inotify_init1\<close> (\<^verbatim>\<open>EMFILE\<close>, 24).
\<close>

definition ex_fresh :: state where
  "ex_fresh = \<lparr>wmem = (\<lambda>_. w_zero), cmem = (\<lambda>_. ctx_zero), errno = 0, trace = [],
               kernel = (\<lambda>h a. case a of Epoll_create1 \<Rightarrow> answer 3
                                  | Inotify_init1 \<Rightarrow> failure 24
                                  | _ \<Rightarrow> answer 0)\<rparr>"

text \<open>
  The context at address 10 with one active I/O watcher at address 1, on descriptor 7,
  with callback 1.
\<close>

definition ex_active :: state where
  "ex_active =
     \<lparr>wmem = (\<lambda>_. w_zero)(1 := w_zero\<lparr>w_active := 1, w_events := EPOLLIN OR EPOLLONESHOT,
                                        w_cb := 1, w_fd := 7, w_ctx := 10\<rparr>),
      cmem = (\<lambda>_. ctx_zero)(10 := ex_ctx\<lparr>c_watchers := 1\<rparr>),
      errno = 0, trace = [], kernel = (\<lambda>h a. answer 0)\<rparr>"

text \<open>
  In the examples no timer is set; timers and events are stopped as the spec describes it.
\<close>

definition ex_ops :: ext_ops where
  "ex_ops = \<lparr>x_timer_set = (\<lambda>w t p s. Some (0, s)), x_timer_stop = ml_timer_stop,
             x_event_stop = ml_event_stop\<rparr>"

text \<open>
  Callback 1 clears the \<^verbatim>\<open>running\<close> flag of the context at address 10; the other
  callbacks do nothing.
\<close>

definition ex_cbs :: "nat \<Rightarrow> callback" where
  "ex_cbs f w a ev s =
     (if f = 1 then Some (upd_c 10 (\<lambda>x. x\<lparr>c_running := 0\<rparr>) s) else Some s)"

text \<open>
  Two active I/O watchers, the one at address 2 in front of the one at address 1, and a
  kernel whose \<^verbatim>\<open>epoll_wait\<close> reports both as ready, watcher 1 first. Watcher 1 has
  callback 1, watcher 2 has callback 2.
\<close>

definition ex_two :: state where
  "ex_two =
     \<lparr>wmem = (\<lambda>_. w_zero)
         (1 := w_zero\<lparr>w_prev := 2, w_active := 1, w_events := EPOLLIN, w_cb := 1, w_fd := 7,
                      w_ctx := 10\<rparr>,
          2 := w_zero\<lparr>w_next := 1, w_active := 1, w_events := EPOLLIN, w_cb := 2, w_fd := 8,
                      w_ctx := 10\<rparr>),
      cmem = (\<lambda>_. ctx_zero)(10 := ex_ctx\<lparr>c_watchers := 2\<rparr>),
      errno = 0, trace = [],
      kernel = (\<lambda>h a. case a of
                  Epoll_wait _ _ _ \<Rightarrow> \<lparr>r_ret = 2, r_errno = 0, r_n = 0,
                                       r_ee = [(EPOLLIN, 1), (EPOLLIN, 2)]\<rparr>
                | _ \<Rightarrow> answer 0)\<rparr>"

text \<open>
  A running context whose only watcher, at address 1, is pseudo-registered on standard
  input. \<open>ex_pseudo n\<close> has a kernel whose probe finds \<open>n\<close> bytes to read.
\<close>

definition ex_pseudo :: "int \<Rightarrow> state" where
  "ex_pseudo n =
     \<lparr>wmem = (\<lambda>_. w_zero)
         (1 := w_zero\<lparr>w_active := -1, w_events := MINILOOP_READ, w_cb := 2, w_fd := 0,
                      w_ctx := 10\<rparr>),
      cmem = (\<lambda>_. ctx_zero)(10 := ex_ctx\<lparr>c_running := 1, c_watchers := 1, c_workaround := 1\<rparr>),
      errno = 0, trace = [],
      kernel = (\<lambda>h a. case a of
                  Select_read _ _ \<Rightarrow> answer 1
                | Ioctl_fionread _ \<Rightarrow> \<lparr>r_ret = 0, r_errno = 0, r_n = n, r_ee = []\<rparr>
                | _ \<Rightarrow> answer 0)\<rparr>"

text \<open>
  An initialised, inactive I/O watcher for reading standard input, and a kernel that
  refuses to register it (\<^verbatim>\<open>EPERM\<close>), as it does for a regular file.
\<close>

definition ex_stdin :: state where
  "ex_stdin =
     \<lparr>wmem = (\<lambda>_. w_zero)
         (1 := w_zero\<lparr>w_events := MINILOOP_READ, w_cb := 2, w_fd := 0, w_ctx := 10\<rparr>),
      cmem = (\<lambda>_. ctx_zero)(10 := ex_ctx),
      errno = 0, trace = [],
      kernel = (\<lambda>h a. case a of
                  Epoll_ctl_add _ _ _ _ \<Rightarrow> failure EPERM
                | _ \<Rightarrow> answer 0)\<rparr>"

text \<open>
  Two initialised, inactive I/O watchers of the context at address 10, and a kernel that
  grants everything.
\<close>

definition ex_idle :: state where
  "ex_idle =
     \<lparr>wmem = (\<lambda>_. w_zero)
         (1 := w_zero\<lparr>w_events := EPOLLIN, w_cb := 1, w_fd := 7, w_ctx := 10\<rparr>,
          2 := w_zero\<lparr>w_events := EPOLLIN, w_cb := 2, w_fd := 8, w_ctx := 10\<rparr>),
      cmem = (\<lambda>_. ctx_zero)(10 := ex_ctx),
      errno = 0, trace = [], kernel = (\<lambda>h a. answer 0)\<rparr>"

text \<open>
  \<open>ex_two\<close> inside \<^verbatim>\<open>ml_run\<close>: when the main loop begins, after the kernel wait, and
  after the callback of watcher 1 has run.
\<close>

definition ex_two_running :: state where
  "ex_two_running = upd_c 10 (\<lambda>x. x\<lparr>c_running := 1\<rparr>) ex_two"

definition ex_two_waited :: state where
  "ex_two_waited =
     snd (syscall (Epoll_wait 3 10 (-1))
            (upd_c 10 (\<lambda>x. x\<lparr>c_workaround := 0\<rparr>) ex_two_running))"

definition ex_two_quit :: state where
  "ex_two_quit =
     upd_c 10 (\<lambda>x. x\<lparr>c_running := 0\<rparr>)
       (ex_two_waited\<lparr>trace := trace ex_two_waited @ [Callback 1 1 0 EPOLLIN]\<rparr>)"

text \<open>\<open>ex_pseudo 5\<close> after the probe and the callback of the workaround pass.\<close>

definition ex_pseudo_called :: state where
  "ex_pseudo_called =
     (ex_pseudo 5)\<lparr>trace := [Select_read 1 0, Ioctl_fionread 0, Callback 2 1 0 MINILOOP_READ]\<rparr>"

section \<open>Frame lemmas\<close>

lemma syscall_wmem [simp]: "wmem (snd (syscall a s)) = wmem s"
  and syscall_cmem [simp]: "cmem (snd (syscall a s)) = cmem s"
  and syscall_trace [simp]: "trace (snd (syscall a s)) = trace s @ [a]"
  and syscall_kernel [simp]: "kernel (snd (syscall a s)) = kernel s"
  by (simp_all add: syscall_def Let_def)

lemma remove_fields [simp]:
  "w_active (wmem (MINILOOP_REMOVE n c s) w) = w_active (wmem s w)"
  "w_events (wmem (MINILOOP_REMOVE n c s) w) = w_events (wmem s w)"
  "w_cb (wmem (MINILOOP_REMOVE n c s) w) = w_cb (wmem s w)"
  "w_arg (wmem (MINILOOP_REMOVE n c s) w) = w_arg (wmem s w)"
  "w_type (wmem (MINILOOP_REMOVE n c s) w) = w_type (wmem s w)"
  "w_fd (wmem (MINILOOP_REMOVE n c s) w) = w_fd (wmem s w)"
  "w_ctx (wmem (MINILOOP_REMOVE n c s) w) = w_ctx (wmem s w)"
  by (simp_all add: MINILOOP_REMOVE_def Let_def upd_w_def upd_c_def)

lemma remove_ctx_fields [simp]:
  "c_fd (cmem (MINILOOP_REMOVE n c s) c') = c_fd (cmem s c')"
  "c_running (cmem (MINILOOP_REMOVE n c s) c') = c_running (cmem s c')"
  "c_workaround (cmem (MINILOOP_REMOVE n c s) c') = c_workaround (cmem s c')"
  "c_maxevents (cmem (MINILOOP_REMOVE n c s) c') = c_maxevents (cmem s c')"
  "trace (MINILOOP_REMOVE n c s) = trace s"
  "kernel (MINILOOP_REMOVE n c s) = kernel s"
  "errno (MINILOOP_REMOVE n c s) = errno s"
  by (simp_all add: MINILOOP_REMOVE_def Let_def upd_w_def upd_c_def)


lemma ex_active_facts:
  "(1::ptr) \<noteq> NULL" "0 < w_active (wmem ex_active 1)" "0 \<le> w_fd (wmem ex_active 1)"
  "w_ctx (wmem ex_active 1) \<noteq> NULL" "w_cb (wmem ex_active 1) \<noteq> 0"
  "w_type (wmem ex_active 1) = MINILOOP_IO_TYPE"
  by (simp_all add: ex_active_def w_zero_def)

section \<open>Null arguments\<close>

text \<open>
  C2, as the code has it. The operations of the I/O and signal adapters that check their
  arguments, \<^verbatim>\<open>ml_io_init\<close>, \<^verbatim>\<open>ml_io_stop\<close>, \<^verbatim>\<open>ml_signal_init\<close>,
  \<^verbatim>\<open>ml_signal_set\<close> and \<^verbatim>\<open>ml_signal_start\<close>, return -1 for a null context or a
  null watcher, set \<^verbatim>\<open>errno\<close> to \<^verbatim>\<open>EINVAL\<close> and change nothing else.
  \<^verbatim>\<open>ml_signal_stop\<close> takes a null watcher for an inactive one: it returns 0 and changes
  nothing.
\<close>

theorem null_arguments_rejected:
  "(ctx = NULL \<or> w = NULL \<longrightarrow>
      ml_io_init ctx w cb arg fd events s = Some (-1, s\<lparr>errno := EINVAL\<rparr>))
   \<and> ml_io_stop NULL s = Some (-1, s\<lparr>errno := EINVAL\<rparr>)
   \<and> (ctx = NULL \<or> w = NULL \<longrightarrow>
        ml_signal_init ctx w cb arg signo s = Some (-1, s\<lparr>errno := EINVAL\<rparr>))
   \<and> (w = NULL \<or> w_ctx (wmem s w) = NULL \<longrightarrow>
        ml_signal_set w signo s = Some (-1, s\<lparr>errno := EINVAL\<rparr>))
   \<and> ml_signal_start NULL s = Some (-1, s\<lparr>errno := EINVAL\<rparr>)
   \<and> ml_signal_stop NULL s = Some (0, s)"
  by (auto simp: ml_io_init_def ml_watcher_init_def ml_io_stop_def ml_watcher_stop_def
      ml_signal_init.simps ml_signal_set.simps ml_signal_start_def ml_signal_stop_def
      ml_watcher_active_def)

theorem null_arguments_rejected_witness:
  "ml_io_init NULL NULL 1 0 7 EPOLLIN ex_active = Some (-1, ex_active\<lparr>errno := EINVAL\<rparr>)
   \<and> ml_io_stop NULL ex_active = Some (-1, ex_active\<lparr>errno := EINVAL\<rparr>)
   \<and> ml_signal_init NULL NULL 1 0 2 ex_active = Some (-1, ex_active\<lparr>errno := EINVAL\<rparr>)
   \<and> ml_signal_set NULL 2 ex_active = Some (-1, ex_active\<lparr>errno := EINVAL\<rparr>)
   \<and> ml_signal_start NULL ex_active = Some (-1, ex_active\<lparr>errno := EINVAL\<rparr>)
   \<and> ml_signal_stop NULL ex_active = Some (0, ex_active)"
  using null_arguments_rejected [of NULL NULL 1 0 7 EPOLLIN ex_active 2] by simp

text \<open>
  Against C2 as stated: \<^verbatim>\<open>ml_signal_stop(NULL)\<close> returns zero, and leaves
  \<^verbatim>\<open>errno\<close> as it was.
\<close>

theorem signal_stop_null_returns_zero:
  "ml_signal_stop NULL ex_active = Some (0, ex_active)"
  by (simp add: ml_signal_stop_def ml_watcher_active_def)

text \<open>
  \<^verbatim>\<open>ml_io_set\<close> and \<^verbatim>\<open>ml_io_start\<close> have no check of their own: with a null
  watcher they read \<^verbatim>\<open>w->ctx\<close> and \<^verbatim>\<open>w->fd\<close> through the null pointer and do
  not return.
\<close>

lemma io_set_null_faults:
  "ml_io_set NULL fd events s = None" "ml_io_start NULL s = None"
  by (simp_all add: ml_io_set_def ml_io_start_def ml_io_stop_def ml_watcher_stop_def
      ml_watcher_active_def)

section \<open>Hang-up and error on an I/O watcher\<close>



section \<open>One-shot rearm\<close>

text \<open>
  C7: for an active I/O watcher (with its descriptor and its context, as every started
  watcher has them), \<^verbatim>\<open>ml_io_set\<close> with the one-shot bit among the events does one
  thing, the \<^verbatim>\<open>EPOLL_CTL_MOD\<close> call: no watcher and no context is changed, so no list
  node is inserted or removed and the watcher list is as before.
\<close>

theorem io_set_oneshot_rearm_only:
  assumes "events AND MINILOOP_ONESHOT \<noteq> 0" and "w \<noteq> NULL" and "0 < w_active (wmem s w)"
    and "0 \<le> w_fd (wmem s w)" and "w_ctx (wmem s w) \<noteq> NULL"
  shows "\<exists>r s'. ml_io_set w fd events s = Some (r, s')
           \<and> wmem s' = wmem s \<and> cmem s' = cmem s
           \<and> trace s' = trace s @
                [Epoll_ctl_mod (c_fd (cmem s (w_ctx (wmem s w)))) (w_fd (wmem s w))
                   (w_events (wmem s w) OR EPOLLRDHUP) w]"
  using assms
  by (simp add: ml_io_set_def ml_watcher_active_def ml_watcher_rearm_def Let_def split_def)

theorem io_set_oneshot_rearm_only_witness:
  "(EPOLLOUT OR EPOLLONESHOT) AND MINILOOP_ONESHOT \<noteq> 0 \<and> (1::ptr) \<noteq> NULL
   \<and> 0 < w_active (wmem ex_active 1) \<and> 0 \<le> w_fd (wmem ex_active 1)
   \<and> w_ctx (wmem ex_active 1) \<noteq> NULL
   \<and> (\<exists>r s'. ml_io_set 1 9 (EPOLLOUT OR EPOLLONESHOT) ex_active = Some (r, s')
           \<and> wmem s' = wmem ex_active \<and> cmem s' = cmem ex_active
           \<and> trace s' = trace ex_active @
                [Epoll_ctl_mod (c_fd (cmem ex_active (w_ctx (wmem ex_active 1))))
                   (w_fd (wmem ex_active 1)) (w_events (wmem ex_active 1) OR EPOLLRDHUP) 1])"
proof -
  have h: "(EPOLLOUT OR EPOLLONESHOT) AND MINILOOP_ONESHOT \<noteq> 0"
    by (simp add: EPOLLOUT_def EPOLLONESHOT_def MINILOOP_ONESHOT_def)
  from io_set_oneshot_rearm_only [OF h ex_active_facts(1-4), of 9] h ex_active_facts
  show ?thesis by blast
qed

text \<open>
  C9: in the same situation the arguments \<^verbatim>\<open>fd\<close> and \<^verbatim>\<open>events\<close> of
  \<^verbatim>\<open>ml_io_set\<close> are not used: the call is \<^verbatim>\<open>_ml_watcher_rearm(w)\<close>, which registers
  the descriptor and the events stored in the watcher, and both fields stay as they were.
\<close>

theorem io_set_oneshot_discards_arguments:
  assumes "events AND MINILOOP_ONESHOT \<noteq> 0" and "w \<noteq> NULL" and "0 < w_active (wmem s w)"
    and "0 \<le> w_fd (wmem s w)" and "w_ctx (wmem s w) \<noteq> NULL"
  shows "ml_io_set w fd events s = ml_watcher_rearm w s
         \<and> (\<exists>r s'. ml_watcher_rearm w s = Some (r, s')
               \<and> last (trace s') =
                    Epoll_ctl_mod (c_fd (cmem s (w_ctx (wmem s w)))) (w_fd (wmem s w))
                      (w_events (wmem s w) OR EPOLLRDHUP) w
               \<and> w_fd (wmem s' w) = w_fd (wmem s w)
               \<and> w_events (wmem s' w) = w_events (wmem s w))"
  using assms
  by (simp add: ml_io_set_def ml_watcher_active_def ml_watcher_rearm_def Let_def split_def)

theorem io_set_oneshot_discards_arguments_witness:
  "(EPOLLOUT OR EPOLLONESHOT) AND MINILOOP_ONESHOT \<noteq> 0 \<and> (1::ptr) \<noteq> NULL
   \<and> 0 < w_active (wmem ex_active 1) \<and> 0 \<le> w_fd (wmem ex_active 1)
   \<and> w_ctx (wmem ex_active 1) \<noteq> NULL
   \<and> ml_io_set 1 9 (EPOLLOUT OR EPOLLONESHOT) ex_active = ml_watcher_rearm 1 ex_active
   \<and> (\<exists>r s'. ml_watcher_rearm 1 ex_active = Some (r, s')
           \<and> last (trace s') =
                Epoll_ctl_mod (c_fd (cmem ex_active (w_ctx (wmem ex_active 1))))
                  (w_fd (wmem ex_active 1)) (w_events (wmem ex_active 1) OR EPOLLRDHUP) 1
           \<and> w_fd (wmem s' 1) = w_fd (wmem ex_active 1)
           \<and> w_events (wmem s' 1) = w_events (wmem ex_active 1))"
proof -
  have h: "(EPOLLOUT OR EPOLLONESHOT) AND MINILOOP_ONESHOT \<noteq> 0"
    by (simp add: EPOLLOUT_def EPOLLONESHOT_def MINILOOP_ONESHOT_def)
  from io_set_oneshot_discards_arguments [OF h ex_active_facts(1-4), of 9] h ex_active_facts
  show ?thesis by blast
qed

section \<open>Starting an active watcher\<close>

text \<open>
  C10: \<^verbatim>\<open>_ml_watcher_start\<close> on a watcher that is already active (and has its
  descriptor and its context, which the function checks first) returns 0 and leaves the
  state as it is: no system call is made, and no node is inserted.
\<close>

theorem start_active_idempotent:
  assumes "w \<noteq> NULL" and "0 < w_active (wmem s w)"
    and "0 \<le> w_fd (wmem s w)" and "w_ctx (wmem s w) \<noteq> NULL"
  shows "ml_watcher_start w s = Some (0, s)"
  using assms by (simp add: ml_watcher_start_def ml_watcher_active_def)

theorem start_active_idempotent_witness:
  "(1::ptr) \<noteq> NULL \<and> 0 < w_active (wmem ex_active 1) \<and> 0 \<le> w_fd (wmem ex_active 1)
   \<and> w_ctx (wmem ex_active 1) \<noteq> NULL \<and> ml_watcher_start 1 ex_active = Some (0, ex_active)"
  using start_active_idempotent [OF ex_active_facts(1-4)] ex_active_facts by blast

section \<open>Failure of context initialisation\<close>

text \<open>
  C8, at an input where the code departs from it: \<^verbatim>\<open>epoll_create1\<close> hands out
  descriptor 3 and \<^verbatim>\<open>inotify_init1\<close> fails. \<^verbatim>\<open>ml_init\<close> returns -1 after these two
  calls, without a \<^verbatim>\<open>close(3)\<close>.
\<close>

theorem init_leaks_epoll_fd:
  "map_option (\<lambda>(r, s). (r, trace s)) (ml_init 10 1 ex_fresh)
     = Some (-1, [Epoll_create1, Inotify_init1])"
  by (simp add: ml_init_def init_def ex_fresh_def syscall_def upd_c_def answer_def failure_def
      Let_def)

section \<open>Facts about the example states\<close>

lemma answer_simps [simp]:
  "r_ret (answer v) = v" "r_errno (answer v) = 0" "r_n (answer v) = 0" "r_ee (answer v) = []"
  by (simp_all add: answer_def)

lemma event_bits_simps:
  "EPOLLIN AND (EPOLLHUP OR EPOLLERR) = 0" "EPOLLIN AND MINILOOP_EVENT_MASK = EPOLLIN"
  by (simp_all add: MINILOOP_EVENT_MASK_def MINILOOP_ERROR_def MINILOOP_READ_def
        MINILOOP_WRITE_def MINILOOP_PRI_def MINILOOP_RDHUP_def MINILOOP_HUP_def
        MINILOOP_EDGE_def MINILOOP_ONESHOT_def EPOLLIN_def EPOLLPRI_def EPOLLOUT_def
        EPOLLERR_def EPOLLHUP_def EPOLLRDHUP_def EPOLLONESHOT_def EPOLLET_def)

lemma syscall_fst: "fst (syscall a s) = kernel s (trace s) a"
  by (simp add: syscall_def Let_def)

lemma ex_two_facts:
  "wmem ex_two_running 1 = w_zero\<lparr>w_prev := 2, w_active := 1, w_events := EPOLLIN, w_cb := 1,
                                     w_fd := 7, w_ctx := 10\<rparr>"
  "wmem ex_two_running 2 = w_zero\<lparr>w_next := 1, w_active := 1, w_events := EPOLLIN, w_cb := 2,
                                     w_fd := 8, w_ctx := 10\<rparr>"
  "cmem ex_two_running 10 = ex_ctx\<lparr>c_watchers := 2, c_running := 1\<rparr>"
  "cmem ex_two 10 = ex_ctx\<lparr>c_watchers := 2\<rparr>"
  "kernel ex_two_running h (Epoll_wait a b c)
     = \<lparr>r_ret = 2, r_errno = 0, r_n = 0, r_ee = [(EPOLLIN, 1), (EPOLLIN, 2)]\<rparr>"
  "wmem ex_two_waited = wmem ex_two_running"
  "cmem ex_two_waited 10 = ex_ctx\<lparr>c_watchers := 2, c_running := 1, c_workaround := 0\<rparr>"
  by (simp_all add: ex_two_waited_def ex_two_running_def ex_two_def upd_c_def)

lemma ex_pseudo_facts:
  "wmem (ex_pseudo n) 1 = w_zero\<lparr>w_active := -1, w_events := MINILOOP_READ, w_cb := 2,
                                   w_fd := 0, w_ctx := 10\<rparr>"
  "cmem (ex_pseudo n) 10 = ex_ctx\<lparr>c_running := 1, c_watchers := 1, c_workaround := 1\<rparr>"
  "trace (ex_pseudo n) = []"
  "kernel (ex_pseudo n) h (Select_read a b) = answer 1"
  "kernel (ex_pseudo n) h (Ioctl_fionread a) = \<lparr>r_ret = 0, r_errno = 0, r_n = n, r_ee = []\<rparr>"
  by (simp_all add: ex_pseudo_def)

section \<open>Clearing the running flag during dispatch\<close>

lemma dispatch_stopped: "c_running (cmem s ctx) = 0 \<Longrightarrow> ml_run_dispatch X cbs ctx ee s = Some s"
  by (cases ee) simp_all

lemma dispatch_append:
  "ml_run_dispatch X cbs ctx (pre @ post) s =
     (case ml_run_dispatch X cbs ctx pre s of
        None \<Rightarrow> None
      | Some s' \<Rightarrow> ml_run_dispatch X cbs ctx post s')"
proof (induction pre arbitrary: s)
  case Nil
  show ?case by simp
next
  case (Cons e pre)
  show ?case
  proof (cases "c_running (cmem s ctx) = 0")
    case True
    then show ?thesis by (simp add: dispatch_stopped)
  next
    case False
    then show ?thesis using Cons.IH by (simp split: option.splits)
  qed
qed

lemma iterations_loop:
  "ml_run_iterations X cbs ctx flags timeout n s = Some s'
   \<Longrightarrow> ml_run_loop X cbs ctx flags timeout s = ml_run_loop X cbs ctx flags timeout s'"
proof (induction n arbitrary: s)
  case 0
  then show ?case by simp
next
  case (Suc n)
  from Suc.prems obtain s1 where guard: "c_running (cmem s ctx) \<noteq> 0" "c_watchers (cmem s ctx) \<noteq> NULL"
    and it: "ml_run_iteration X cbs ctx flags timeout s = Some (Continue, s1)"
    and rest: "ml_run_iterations X cbs ctx flags timeout n s1 = Some s'"
    by (auto split: if_splits option.splits control.splits)
  have "ml_run_loop X cbs ctx flags timeout s = ml_run_loop X cbs ctx flags timeout s1"
    using guard it by (subst ml_run_loop.simps) simp
  with Suc.IH [OF rest] show ?case by simp
qed

lemma wait_fits_array:
  assumes "ml_run_wait X ctx timeout s = Some y"
  shows "\<forall>nfds ee. fst y = Inl (nfds, ee) \<longrightarrow> nfds \<le> MINILOOP_MAX_EVENTS"
proof (rule ml_run_wait.raw_induct
    [where P = "\<lambda>X ctx timeout s y.
                  \<forall>nfds ee. fst y = Inl (nfds, ee) \<longrightarrow> nfds \<le> MINILOOP_MAX_EVENTS",
      OF _ assms])
  fix f X ctx timeout s and y :: "((int \<times> (event_bits \<times> ptr) list) + int) \<times> state"
  assume IH: "\<And>X ctx timeout s y. f X ctx timeout s = Some y
                \<Longrightarrow> \<forall>nfds ee. fst y = Inl (nfds, ee) \<longrightarrow> nfds \<le> MINILOOP_MAX_EVENTS"
    and step: "(let (r, s1) = syscall (Epoll_wait (c_fd (cmem s ctx)) (c_maxevents (cmem s ctx))
                                  timeout) s;
                    nfds = r_ret r
                in if nfds > MINILOOP_MAX_EVENTS then None
                   else if nfds < 0 then
                     (if c_running (cmem s1 ctx) = 0 then Some (Inl (nfds, r_ee r), s1)
                      else if EINTR = errno s1 then f X ctx timeout s1
                      else (case ml_exit X ctx s1 of
                              None \<Rightarrow> None
                            | Some (_, s2) \<Rightarrow> Some (Inr (-2), s2)))
                   else Some (Inl (nfds, r_ee r), s1)) = Some y"
  from step IH show "\<forall>nfds ee. fst y = Inl (nfds, ee) \<longrightarrow> nfds \<le> MINILOOP_MAX_EVENTS"
    by (auto simp: Let_def split_def split: if_splits option.splits)
qed

text \<open>
  C1, as the code has it: the dispatch loop tests \<^verbatim>\<open>ctx->running\<close> before every ready
  record. Take any iteration of the main loop of \<^verbatim>\<open>ml_run\<close> (after \<open>n\<close> earlier ones)
  whose kernel wait returns a batch, which then fits the array of
  \<^verbatim>\<open>MINILOOP_MAX_EVENTS\<close> records. When the callback of a record \<open>e\<close> of the batch clears
  the flag, the dispatch loop ends in the state \<open>s1\<close> this callback leaves, whatever
  records \<open>post\<close> are left: none of them is dispatched. The iteration ends there, and
  \<^verbatim>\<open>ml_run\<close> returns 0 in the state \<open>s1\<close>.
\<close>

theorem run_returns_when_running_cleared:
  assumes entry: "ctx \<noteq> NULL" "0 \<le> c_fd (cmem s_in ctx)"
    and tmo: "timeout = (if flags AND MINILOOP_NONBLOCK \<noteq> 0 then 0 else -1)"
    and timers: "ml_run_timers X (c_watchers (cmem s_in ctx))
                  (upd_c ctx (\<lambda>x. x\<lparr>c_running := 1\<rparr>) s_in) = Some s_first"
    and before: "ml_run_iterations X cbs ctx flags timeout n s_first = Some s"
    and guard: "c_running (cmem s ctx) \<noteq> 0" "c_watchers (cmem s ctx) \<noteq> NULL"
    and pass: "(if c_workaround (cmem s ctx) \<noteq> 0
                then ml_run_workaround cbs ctx (c_watchers (cmem s ctx)) 0 s
                else Some (0, s)) = Some (0, s2)"
    and wait: "ml_run_wait X ctx timeout (upd_c ctx (\<lambda>x. x\<lparr>c_workaround := 0\<rparr>) s2)
                 = Some (Inl (nfds, ee), s3)"
    and batch: "take (nat nfds) ee = pre @ e # post"
    and disp_pre: "ml_run_dispatch X cbs ctx pre s3 = Some s0"
    and running: "c_running (cmem s0 ctx) \<noteq> 0"
    and rec: "ml_run_record X cbs e s0 = Some s1"
    and cleared: "c_running (cmem s1 ctx) = 0"
  shows "int (length (pre @ e # post)) \<le> MINILOOP_MAX_EVENTS
         \<and> ml_run_dispatch X cbs ctx (pre @ e # post) s3 = Some s1
         \<and> ml_run_iteration X cbs ctx flags timeout s
             = Some (if flags AND MINILOOP_ONCE \<noteq> 0 then Break else Continue, s1)
         \<and> ml_run_loop X cbs ctx flags timeout s = Some (0, s1)
         \<and> ml_run X cbs ctx flags s_in = Some (0, s1)"
proof -
  from wait_fits_array [OF wait] have "nfds \<le> MINILOOP_MAX_EVENTS" by simp
  moreover have "length (pre @ e # post) \<le> nat nfds"
    using batch [symmetric] by (simp del: length_append)
  moreover have "int k \<le> m" if "j \<le> m" "k \<le> nat j" "0 < k" for k :: nat and j m :: int
    using that by arith
  ultimately have len: "int (length (pre @ e # post)) \<le> MINILOOP_MAX_EVENTS"
    by (metis length_greater_0_conv append_is_Nil_conv list.distinct(1))
  have disp: "ml_run_dispatch X cbs ctx (pre @ e # post) s3 = Some s1"
    using disp_pre running rec cleared by (simp add: dispatch_append dispatch_stopped)
  have iter: "ml_run_iteration X cbs ctx flags timeout s
                = Some (if flags AND MINILOOP_ONCE \<noteq> 0 then Break else Continue, s1)"
    using pass wait batch disp by (simp add: ml_run_iteration_def)
  have stop: "ml_run_loop X cbs ctx flags timeout s1 = Some (0, s1)"
    using cleared by (subst ml_run_loop.simps) simp
  have loop: "ml_run_loop X cbs ctx flags timeout s = Some (0, s1)"
    using guard iter stop by (subst ml_run_loop.simps) simp
  have "ml_run_loop X cbs ctx flags timeout s_first = Some (0, s1)"
    using iterations_loop [OF before] loop by simp
  then have "ml_run X cbs ctx flags s_in = Some (0, s1)"
    using entry tmo timers by (simp add: ml_run_def Let_def upd_c_def)
  with len disp iter loop show ?thesis by blast
qed

theorem run_returns_when_running_cleared_witness:
  "(10::ptr) \<noteq> NULL \<and> 0 \<le> c_fd (cmem ex_two 10)
   \<and> (-1::int) = (if (0::32 word) AND MINILOOP_NONBLOCK \<noteq> 0 then 0 else -1)
   \<and> ml_run_timers ex_ops (c_watchers (cmem ex_two 10))
         (upd_c 10 (\<lambda>x. x\<lparr>c_running := 1\<rparr>) ex_two) = Some ex_two_running
   \<and> ml_run_iterations ex_ops ex_cbs 10 0 (-1) 0 ex_two_running = Some ex_two_running
   \<and> c_running (cmem ex_two_running 10) \<noteq> 0
   \<and> c_watchers (cmem ex_two_running 10) \<noteq> NULL
   \<and> (if c_workaround (cmem ex_two_running 10) \<noteq> 0
        then ml_run_workaround ex_cbs 10 (c_watchers (cmem ex_two_running 10)) 0 ex_two_running
        else Some (0, ex_two_running)) = Some (0, ex_two_running)
   \<and> ml_run_wait ex_ops 10 (-1) (upd_c 10 (\<lambda>x. x\<lparr>c_workaround := 0\<rparr>) ex_two_running)
        = Some (Inl (2, [(EPOLLIN, 1), (EPOLLIN, 2)]), ex_two_waited)
   \<and> take (nat 2) [(EPOLLIN, 1), (EPOLLIN, 2)] = [] @ (EPOLLIN, 1::ptr) # [(EPOLLIN, 2)]
   \<and> ml_run_dispatch ex_ops ex_cbs 10 [] ex_two_waited = Some ex_two_waited
   \<and> c_running (cmem ex_two_waited 10) \<noteq> 0
   \<and> ml_run_record ex_ops ex_cbs (EPOLLIN, 1) ex_two_waited = Some ex_two_quit
   \<and> c_running (cmem ex_two_quit 10) = 0
   \<and> int (length ([] @ (EPOLLIN, 1::ptr) # [(EPOLLIN, 2)])) \<le> MINILOOP_MAX_EVENTS
   \<and> ml_run_dispatch ex_ops ex_cbs 10 ([] @ (EPOLLIN, 1) # [(EPOLLIN, 2)]) ex_two_waited
        = Some ex_two_quit
   \<and> ml_run_iteration ex_ops ex_cbs 10 0 (-1) ex_two_running
        = Some (if (0::32 word) AND MINILOOP_ONCE \<noteq> 0 then Break else Continue, ex_two_quit)
   \<and> ml_run_loop ex_ops ex_cbs 10 0 (-1) ex_two_running = Some (0, ex_two_quit)
   \<and> ml_run ex_ops ex_cbs 10 0 ex_two = Some (0, ex_two_quit)"
proof -
  have h1: "(10::ptr) \<noteq> NULL" by simp
  have h2: "0 \<le> c_fd (cmem ex_two 10)" by (simp add: ex_two_facts ex_ctx_def)
  have h3: "(-1::int) = (if (0::32 word) AND MINILOOP_NONBLOCK \<noteq> 0 then 0 else -1)" by simp
  have h4: "ml_run_timers ex_ops (c_watchers (cmem ex_two 10))
              (upd_c 10 (\<lambda>x. x\<lparr>c_running := 1\<rparr>) ex_two) = Some ex_two_running"
    unfolding ex_two_running_def [symmetric]
    by (simp add: ml_run_timers.simps ex_two_facts w_zero_def del: One_nat_def)
  have h5: "ml_run_iterations ex_ops ex_cbs 10 0 (-1) 0 ex_two_running = Some ex_two_running"
    by simp
  have h6: "c_running (cmem ex_two_running 10) \<noteq> 0" by (simp add: ex_two_facts)
  have h7: "c_watchers (cmem ex_two_running 10) \<noteq> NULL" by (simp add: ex_two_facts)
  have h8: "(if c_workaround (cmem ex_two_running 10) \<noteq> 0
        then ml_run_workaround ex_cbs 10 (c_watchers (cmem ex_two_running 10)) 0 ex_two_running
        else Some (0, ex_two_running)) = Some (0, ex_two_running)"
    by (simp add: ex_two_facts ex_ctx_def)
  have h9: "ml_run_wait ex_ops 10 (-1) (upd_c 10 (\<lambda>x. x\<lparr>c_workaround := 0\<rparr>) ex_two_running)
        = Some (Inl (2, [(EPOLLIN, 1), (EPOLLIN, 2)]), ex_two_waited)"
    by (subst ml_run_wait.simps)
       (simp add: split_def Let_def syscall_fst ex_two_waited_def ex_two_facts ex_ctx_def
          upd_c_def MINILOOP_MAX_EVENTS_def del: One_nat_def)
  have h10: "take (nat 2) [(EPOLLIN, 1), (EPOLLIN, 2)] = [] @ (EPOLLIN, 1::ptr) # [(EPOLLIN, 2)]"
    by simp
  have h11: "ml_run_dispatch ex_ops ex_cbs 10 [] ex_two_waited = Some ex_two_waited" by simp
  have h12: "c_running (cmem ex_two_waited 10) \<noteq> 0" by (simp add: ex_two_facts)
  have h13: "ml_run_record ex_ops ex_cbs (EPOLLIN, 1) ex_two_waited = Some ex_two_quit"
    by (simp add: ml_run_record_def ml_run_switch_def call_cb_def ex_cbs_def ex_two_quit_def
        ex_two_facts w_zero_def event_bits_simps del: One_nat_def)
  have h14: "c_running (cmem ex_two_quit 10) = 0"
    by (simp add: ex_two_quit_def upd_c_def)
  from run_returns_when_running_cleared [OF h1 h2 h3 h4 h5 h6 h7 h8 h9 h10 h11 h12 h13 h14]
    h1 h2 h3 h4 h5 h6 h7 h8 h9 h10 h11 h12 h13 h14
  show ?thesis by blast
qed

text \<open>
  Against C1 as stated: \<^verbatim>\<open>epoll_wait\<close> reports two ready records; the callback of the
  first clears \<^verbatim>\<open>running\<close>, and \<^verbatim>\<open>ml_run\<close> returns 0 without having called the
  callback of the second.
\<close>

theorem run_skips_ready_record:
  "map_option (\<lambda>(r, s). (r, trace s)) (ml_run ex_ops ex_cbs 10 0 ex_two)
     = Some (0, [Epoll_wait 3 10 (-1), Callback 1 1 0 EPOLLIN])"
  by (simp add: ml_run_def ml_run_timers.simps ml_run_loop.simps ml_run_iteration_def
      ml_run_wait.simps ml_run_record_def ml_run_switch_def call_cb_def
      ex_two_def ex_cbs_def ex_ops_def ex_ctx_def w_zero_def ctx_zero_def answer_def
      syscall_def upd_c_def upd_w_def Let_def
      MINILOOP_EVENT_MASK_def MINILOOP_ERROR_def MINILOOP_READ_def
      MINILOOP_WRITE_def MINILOOP_PRI_def MINILOOP_RDHUP_def MINILOOP_HUP_def
      MINILOOP_EDGE_def MINILOOP_ONESHOT_def EPOLLIN_def EPOLLPRI_def EPOLLOUT_def
      EPOLLERR_def EPOLLHUP_def EPOLLRDHUP_def EPOLLONESHOT_def EPOLLET_def
      MINILOOP_NONBLOCK_def MINILOOP_ONCE_def MINILOOP_MAX_EVENTS_def)

section \<open>The workaround pass\<close>

lemma workaround_rerun:
  assumes "ml_run_workaround cbs ctx node r s = Some y"
  shows "r \<le> fst y \<and> (fst y = r \<longrightarrow> snd y = s)"
proof (rule ml_run_workaround.raw_induct
    [where P = "\<lambda>cbs ctx node r s y. r \<le> fst y \<and> (fst y = r \<longrightarrow> snd y = s)", OF _ assms])
  fix f cbs ctx node rerun s and y :: "int \<times> state"
  assume IH: "\<And>cbs ctx node r s y. f cbs ctx node r s = Some y
                \<Longrightarrow> r \<le> fst y \<and> (fst y = r \<longrightarrow> snd y = s)"
    and step: "(if node = NULL then Some (rerun, s)
      else let nxt = w_next (wmem s node)
           in if w_active (wmem s node) \<noteq> - 1 \<or> w_cb (wmem s node) = NULL
              then f cbs ctx nxt rerun s
              else case ml_run_pseudo cbs ctx node s of None \<Rightarrow> None
                   | Some s1 \<Rightarrow> f cbs ctx nxt (rerun + 1) s1) = Some y"
  show "rerun \<le> fst y \<and> (fst y = rerun \<longrightarrow> snd y = s)"
  proof (cases "node = NULL")
    case True
    with step show ?thesis by auto
  next
    case False
    show ?thesis
    proof (cases "w_active (wmem s node) \<noteq> - 1 \<or> w_cb (wmem s node) = NULL")
      case True
      with step False have "f cbs ctx (w_next (wmem s node)) rerun s = Some y"
        by (simp add: Let_def)
      from IH [OF this] show ?thesis .
    next
      case no_skip: False
      with step False obtain s1 where "f cbs ctx (w_next (wmem s node)) (rerun + 1) s1 = Some y"
        by (auto simp: Let_def split: option.splits)
      from IH [OF this] show ?thesis by auto
    qed
  qed
qed

text \<open>
  C4, as the code has it: \<^verbatim>\<open>if (rerun) continue;\<close> comes before
  \<^verbatim>\<open>ctx->workaround = 0;\<close>. When the pass has set \<^verbatim>\<open>rerun\<close>, the iteration ends
  there, in the state the pass has left: there is no kernel wait, and the dispatcher does
  not touch the workaround flag. When the pass has not set \<^verbatim>\<open>rerun\<close> it has changed
  nothing, and the iteration goes on as from the state with the flag cleared.
\<close>

theorem workaround_flag_and_rerun:
  assumes "c_workaround (cmem s ctx) \<noteq> 0"
    and "ml_run_workaround cbs ctx (c_watchers (cmem s ctx)) 0 s = Some (rerun, s1)"
  shows "(rerun \<noteq> 0 \<longrightarrow> ml_run_iteration X cbs ctx flags timeout s = Some (Continue, s1))
       \<and> (rerun = 0 \<longrightarrow> s1 = s
            \<and> ml_run_iteration X cbs ctx flags timeout s =
                ml_run_iteration X cbs ctx flags timeout
                  (upd_c ctx (\<lambda>x. x\<lparr>c_workaround := 0\<rparr>) s))"
proof -
  have eq: "rerun = 0 \<Longrightarrow> s1 = s"
    using workaround_rerun [OF assms(2)] by simp
  show ?thesis using assms eq
    by (auto simp: ml_run_iteration_def upd_c_def)
qed

theorem workaround_flag_and_rerun_witness:
  "c_workaround (cmem (ex_pseudo 5) 10) \<noteq> 0
   \<and> ml_run_workaround ex_cbs 10 (c_watchers (cmem (ex_pseudo 5) 10)) 0 (ex_pseudo 5)
       = Some (1, ex_pseudo_called)
   \<and> ml_run_iteration ex_ops ex_cbs 10 0 (-1) (ex_pseudo 5) = Some (Continue, ex_pseudo_called)"
proof -
  have h1: "c_workaround (cmem (ex_pseudo 5) 10) \<noteq> 0"
    by (simp add: ex_pseudo_facts)
  have h2: "ml_run_workaround ex_cbs 10 (c_watchers (cmem (ex_pseudo 5) 10)) 0 (ex_pseudo 5)
              = Some (1, ex_pseudo_called)"
    by (simp add: ml_run_workaround.simps ml_run_pseudo_def has_data_def
      call_cb_def ex_pseudo_facts ex_pseudo_called_def ex_cbs_def w_zero_def
      syscall_def Let_def del: One_nat_def)
  from workaround_flag_and_rerun [OF h1 h2] h1 h2
  show ?thesis by simp
qed

text \<open>
  Against C4 as stated: a pass that calls the callback of a pseudo-registered watcher ends
  the iteration with the workaround flag still set.
\<close>

theorem rerun_leaves_workaround_flag:
  "map_option (\<lambda>(c, s). (c, c_workaround (cmem s 10), trace s))
     (ml_run_iteration ex_ops ex_cbs 10 0 (-1) (ex_pseudo 5))
   = Some (Continue, 1, [Select_read 1 0, Ioctl_fionread 0, Callback 2 1 0 MINILOOP_READ])"
  by (simp add: ml_run_iteration_def ml_run_workaround.simps ml_run_pseudo_def has_data_def
      call_cb_def ex_pseudo_def ex_cbs_def ex_ctx_def w_zero_def answer_def syscall_def
      Let_def)

section \<open>Doubly linked lists\<close>

lemma dll_cong:
  "(\<And>x. x \<in> set xs \<Longrightarrow> w_next (h' x) = w_next (h x) \<and> w_prev (h' x) = w_prev (h x))
   \<Longrightarrow> dll h' prv p xs = dll h prv p xs"
  by (induction xs arbitrary: prv p) auto

lemma dll_null: "dll h prv p xs \<Longrightarrow> NULL \<notin> set xs"
  by (induction xs arbitrary: prv p) auto

lemma dll_fun: "dll h prv p xs \<Longrightarrow> dll h prv' p ys \<Longrightarrow> xs = ys"
proof (induction xs arbitrary: prv prv' p ys)
  case Nil
  then show ?case by (cases ys) auto
next
  case (Cons x xs)
  then show ?case by (cases ys) auto
qed

lemma dll_suffix: "dll h prv p (as @ x # bs) \<Longrightarrow> \<exists>q. dll h q x (x # bs)"
  by (induction as arbitrary: prv p) auto

lemma dll_distinct: "dll h prv p xs \<Longrightarrow> distinct xs"
proof (induction xs arbitrary: prv p)
  case Nil
  show ?case by simp
next
  case (Cons x xs)
  have "x \<notin> set xs"
  proof
    assume "x \<in> set xs"
    then obtain as bs where xs: "xs = as @ x # bs" by (auto dest: split_list)
    with Cons.prems have "dll h x (w_next (h x)) (as @ x # bs)" by simp
    then obtain q where "dll h q x (x # bs)" by (auto dest: dll_suffix)
    moreover from Cons.prems have "dll h prv x (x # xs)" by simp
    ultimately have "x # bs = x # xs" by (rule dll_fun)
    with xs show False by simp
  qed
  with Cons show ?case by auto
qed

lemma dll_next_in:
  "dll h prv p xs \<Longrightarrow> w \<in> set xs \<Longrightarrow> w_next (h w) = NULL \<or> w_next (h w) \<in> set xs"
proof (induction xs arbitrary: prv p)
  case Nil
  then show ?case by simp
next
  case (Cons x xs)
  then show ?case by (cases xs) auto
qed

lemma dll_prev_in:
  "dll h prv p xs \<Longrightarrow> w \<in> set xs \<Longrightarrow> w_prev (h w) = prv \<or> w_prev (h w) \<in> set xs"
  by (induction xs arbitrary: prv p) auto

lemma dll_first:
  "dll h prv p xs \<Longrightarrow> w \<in> set xs \<Longrightarrow> w_prev (h w) \<notin> set xs \<Longrightarrow> p = w"
proof (induction xs arbitrary: prv p)
  case Nil
  then show ?case by simp
next
  case (Cons x xs)
  show ?case
  proof (cases "w = x")
    case True
    with Cons.prems show ?thesis by simp
  next
    case False
    with Cons.prems have "w \<in> set xs" "w_prev (h w) \<notin> set xs" "dll h x (w_next (h x)) xs"
      by auto
    then have "w_next (h x) = w" by (rule Cons.IH[rotated -1, rotated -1]) 
    with \<open>dll h x (w_next (h x)) xs\<close> \<open>w \<in> set xs\<close> have "w_prev (h w) = x"
      by (cases xs) auto
    with Cons.prems show ?thesis by simp
  qed
qed

lemma dll_unlink:
  assumes "dll h prv p xs" and "w \<in> set xs" and "prv \<notin> set xs"
    and nx: "\<And>x. w_next (h' x) =
               (if x = w then NULL
                else if x = w_prev (h w) \<and> x \<noteq> NULL then w_next (h w) else w_next (h x))"
    and pv: "\<And>x. w_prev (h' x) =
               (if x = w then NULL
                else if x = w_next (h w) \<and> x \<noteq> NULL then w_prev (h w) else w_prev (h x))"
  shows "dll h' prv (if p = w then w_next (h w) else p) (remove1 w xs)"
  using assms(1-3)
proof (induction xs arbitrary: prv p)
  case Nil
  then show ?case by simp
next
  case (Cons x xs)
  from dll_distinct [OF Cons.prems(1)] have d: "distinct (x # xs)" .
  from Cons.prems have px: "p = x" "x \<noteq> NULL" "w_prev (h x) = prv"
    and tl: "dll h x (w_next (h x)) xs" by auto
  show ?case
  proof (cases "x = w")
    case True
    have "dll h' prv (w_next (h w)) xs"
    proof (cases xs)
      case Nil
      with tl True show ?thesis by simp
    next
      case (Cons y ys)
      with tl True have y: "w_next (h w) = y" "y \<noteq> NULL" "w_prev (h y) = w"
        and tl': "dll h y (w_next (h y)) ys" by auto
      from d Cons True have "y \<noteq> w" "w \<notin> set ys" "y \<notin> set ys" by auto
      from Cons.prems(3) Cons True \<open>xs = y # ys\<close> have "prv \<noteq> y" "prv \<notin> set ys" by auto
      have "dll h' y (w_next (h y)) ys = dll h y (w_next (h y)) ys"
        using \<open>w \<notin> set ys\<close> \<open>y \<notin> set ys\<close> \<open>prv \<notin> set ys\<close> px True y
        by (intro dll_cong) (auto simp: nx pv)
      with tl' y \<open>y \<noteq> w\<close> \<open>prv \<noteq> y\<close> px True Cons show ?thesis
        by (simp add: nx pv)
    qed
    with True px show ?thesis by simp
  next
    case False
    with Cons.prems have win: "w \<in> set xs" by simp
    from d have xn: "x \<notin> set xs" by simp
    from dll_next_in [OF tl win] xn px have "x \<noteq> w_next (h w)" by auto
    then have pvx: "w_prev (h' x) = prv" using False px by (simp add: pv)
    have iff: "(x = w_prev (h w)) = (w_next (h x) = w)"
    proof
      assume "x = w_prev (h w)"
      with xn have "w_prev (h w) \<notin> set xs" by simp
      from dll_first [OF tl win this] show "w_next (h x) = w" .
    next
      assume "w_next (h x) = w"
      with tl win show "x = w_prev (h w)" by (cases xs) auto
    qed
    have nxx: "w_next (h' x) = (if w_next (h x) = w then w_next (h w) else w_next (h x))"
      using False px iff by (simp add: nx)
    from Cons.IH [OF tl win xn] nxx
    have "dll h' x (w_next (h' x)) (remove1 w xs)" by simp
    with False px pvx show ?thesis by simp
  qed
qed

lemma remove_next:
  "w_next (wmem (MINILOOP_REMOVE w c s) x) =
     (if x = w then NULL
      else if x = w_prev (wmem s w) \<and> x \<noteq> NULL then w_next (wmem s w)
      else w_next (wmem s x))"
  by (simp add: MINILOOP_REMOVE_def Let_def upd_w_def upd_c_def)

lemma remove_prev:
  "w_prev (wmem (MINILOOP_REMOVE w c s) x) =
     (if x = w then NULL
      else if x = w_next (wmem s w) \<and> x \<noteq> NULL then w_prev (wmem s w)
      else w_prev (wmem s x))"
  by (simp add: MINILOOP_REMOVE_def Let_def upd_w_def upd_c_def)

lemma remove_head:
  "c_watchers (cmem (MINILOOP_REMOVE w c s) c') =
     (if c' = c \<and> c_watchers (cmem s c) = w then w_next (wmem s w)
      else c_watchers (cmem s c'))"
  by (simp add: MINILOOP_REMOVE_def Let_def upd_w_def upd_c_def)

lemma insert_next:
  "w \<noteq> NULL \<Longrightarrow> w_next (wmem (MINILOOP_INSERT w c s) x) =
     (if x = w then c_watchers (cmem s c) else w_next (wmem s x))"
  by (simp add: MINILOOP_INSERT_def Let_def upd_w_def upd_c_def)

lemma insert_prev:
  "w_prev (wmem (MINILOOP_INSERT w c s) x) =
     (if x = w then NULL
      else if x = c_watchers (cmem s c) \<and> x \<noteq> NULL then w else w_prev (wmem s x))"
  by (simp add: MINILOOP_INSERT_def Let_def upd_w_def upd_c_def)

lemma insert_head:
  "c_watchers (cmem (MINILOOP_INSERT w c s) c') = (if c' = c then w else c_watchers (cmem s c'))"
  by (simp add: MINILOOP_INSERT_def Let_def upd_w_def upd_c_def)

lemma insert_fields [simp]:
  "w_active (wmem (MINILOOP_INSERT n c s) w) = w_active (wmem s w)"
  "w_type (wmem (MINILOOP_INSERT n c s) w) = w_type (wmem s w)"
  "w_ctx (wmem (MINILOOP_INSERT n c s) w) = w_ctx (wmem s w)"
  "kernel (MINILOOP_INSERT n c s) = kernel s"
  by (simp_all add: MINILOOP_INSERT_def Let_def upd_w_def upd_c_def)

lemma watcher_list_cong:
  assumes "\<And>x. x \<in> set xs \<Longrightarrow> w_next (wmem s' x) = w_next (wmem s x)
                                \<and> w_prev (wmem s' x) = w_prev (wmem s x)"
    and "c_watchers (cmem s' c) = c_watchers (cmem s c)"
  shows "watcher_list s' c xs = watcher_list s c xs"
proof -
  have "dll (wmem s') NULL (c_watchers (cmem s c)) xs
        = dll (wmem s) NULL (c_watchers (cmem s c)) xs"
    by (rule dll_cong) (rule assms(1))
  with assms(2) show ?thesis by (simp add: watcher_list_def)
qed

lemma watcher_list_null: "watcher_list s c xs \<Longrightarrow> NULL \<notin> set xs"
  by (auto simp: watcher_list_def dest: dll_null)

lemma remove_list:
  assumes "watcher_list s c xs" and "w \<in> set xs"
  shows "watcher_list (MINILOOP_REMOVE w c s) c (remove1 w xs)"
proof -
  from assms(1) have n: "NULL \<notin> set xs" by (rule watcher_list_null)
  from assms(1) have d: "dll (wmem s) NULL (c_watchers (cmem s c)) xs"
    by (simp add: watcher_list_def)
  have "dll (wmem (MINILOOP_REMOVE w c s)) NULL
          (if c_watchers (cmem s c) = w then w_next (wmem s w) else c_watchers (cmem s c))
          (remove1 w xs)"
    by (rule dll_unlink [OF d assms(2) n]) (rule remove_next, rule remove_prev)
  then show ?thesis
    by (simp add: watcher_list_def remove_head)
qed

lemma remove_list_other:
  assumes "watcher_list s c xs" and "w \<in> set xs" and "c' \<noteq> c"
    and "watcher_list s c' ys" and "set ys \<inter> set xs = {}"
  shows "watcher_list (MINILOOP_REMOVE w c s) c' ys"
proof -
  from assms(1,2) have n: "w_next (wmem s w) = NULL \<or> w_next (wmem s w) \<in> set xs"
    and p: "w_prev (wmem s w) = NULL \<or> w_prev (wmem s w) \<in> set xs"
    by (auto simp: watcher_list_def dest: dll_next_in dll_prev_in)
  have "watcher_list (MINILOOP_REMOVE w c s) c' ys = watcher_list s c' ys"
    using assms(2,3,5) n p
    by (intro watcher_list_cong) (auto simp: remove_next remove_prev remove_head)
  with assms(4) show ?thesis by simp
qed

lemma remove_unlinked:
  assumes "w_next (wmem s w) = NULL" and "w_prev (wmem s w) = NULL"
    and "c_watchers (cmem s c) \<noteq> w"
  shows "watcher_list (MINILOOP_REMOVE w c s) c' xs = watcher_list s c' xs"
  using assms
  by (intro watcher_list_cong) (auto simp: remove_next remove_prev remove_head)

lemma insert_list:
  assumes "watcher_list s c xs" and "w \<notin> set xs" and "w \<noteq> NULL"
  shows "watcher_list (MINILOOP_INSERT w c s) c (w # xs)"
proof -
  from assms(1) have d: "distinct xs" by (auto simp: watcher_list_def dest: dll_distinct)
  have "dll (wmem (MINILOOP_INSERT w c s)) w (c_watchers (cmem s c)) xs"
  proof (cases xs)
    case Nil
    with assms(1) show ?thesis by (simp add: watcher_list_def)
  next
    case (Cons y ys)
    with assms(1) have y: "c_watchers (cmem s c) = y" "y \<noteq> NULL"
      and tl: "dll (wmem s) y (w_next (wmem s y)) ys" by (auto simp: watcher_list_def)
    from d Cons assms(2) have "y \<notin> set ys" "w \<notin> set ys" "w \<noteq> y" by auto
    then have "dll (wmem (MINILOOP_INSERT w c s)) y (w_next (wmem s y)) ys
               = dll (wmem s) y (w_next (wmem s y)) ys"
      using y assms(3) by (intro dll_cong) (auto simp: insert_next insert_prev)
    with tl y Cons \<open>w \<noteq> y\<close> assms(3) show ?thesis
      by (simp add: insert_next insert_prev)
  qed
  with assms(3) show ?thesis
    by (simp add: watcher_list_def insert_next insert_prev insert_head)
qed

lemma insert_list_other:
  assumes "watcher_list s c' ys" and "c' \<noteq> c" and "w \<notin> set ys" and "w \<noteq> NULL"
    and "c_watchers (cmem s c) \<notin> set ys"
  shows "watcher_list (MINILOOP_INSERT w c s) c' ys"
proof -
  have "watcher_list (MINILOOP_INSERT w c s) c' ys = watcher_list s c' ys"
    using assms(2-5)
    by (intro watcher_list_cong) (auto simp: insert_next insert_prev insert_head)
  with assms(1) show ?thesis by simp
qed

section \<open>Leaving the pseudo-registered state\<close>

lemma watcher_list_distinct: "watcher_list s c xs \<Longrightarrow> distinct xs"
  unfolding watcher_list_def by (rule dll_distinct)

lemma watcher_list_fun: "watcher_list s c xs \<Longrightarrow> watcher_list s c ys \<Longrightarrow> xs = ys"
  unfolding watcher_list_def by (rule dll_fun)

lemma same_links_refl [simp]: "same_links s s"
  by (simp add: same_links_def)

lemma same_links_trans: "same_links a b \<Longrightarrow> same_links b c \<Longrightarrow> same_links a c"
  by (simp add: same_links_def)

lemma same_links_mem:
  "wmem s' = wmem s \<Longrightarrow> cmem s' = cmem s \<Longrightarrow> same_links s' s"
  by (simp add: same_links_def)

lemma same_links_remove:
  "same_links t t0 \<Longrightarrow> same_links (MINILOOP_REMOVE w c t) (MINILOOP_REMOVE w c t0)"
  by (simp add: same_links_def remove_next remove_prev remove_head)

lemma same_links_insert:
  "w \<noteq> NULL \<Longrightarrow> same_links t t0 \<Longrightarrow> same_links (MINILOOP_INSERT w c t) (MINILOOP_INSERT w c t0)"
  by (simp add: same_links_def insert_next insert_prev insert_head)

lemma same_links_upd_active [simp]:
  "same_links (upd_w w (\<lambda>x. x\<lparr>w_active := a\<rparr>) s) s"
  "same_links (upd_w w (\<lambda>x. x\<lparr>w_fd := b\<rparr>) s) s"
  "same_links (snd (syscall act s)) s"
  by (simp_all add: same_links_def upd_w_def)

lemma same_links_list: "same_links s' t \<Longrightarrow> watcher_list s' c xs = watcher_list t c xs"
  by (rule watcher_list_cong) (simp_all add: same_links_def)

lemma has_data_mem [simp]:
  "wmem (snd (has_data fd s)) = wmem s" "cmem (snd (has_data fd s)) = cmem s"
  by (simp_all add: has_data_def Let_def split_def)

text \<open>
  C3, as the code has it: take a pseudo-registered watcher \<open>w\<close> with a callback that is
  linked once on a well-formed watcher list of the context: following \<^verbatim>\<open>next\<close> from
  the list head visits the nodes \<open>xs\<close>, each once, and ends at the null pointer, every
  \<^verbatim>\<open>prev\<close> points to the node before, and \<open>w\<close> is among \<open>xs\<close>. When the probe of the
  workaround pass finds nothing to read, the callback of \<open>w\<close> runs in a state \<open>s2\<close> in
  which \<open>w\<close> is inactive and no longer on the watcher list; the pass then goes on with the
  node that followed \<open>w\<close>.
\<close>

theorem empty_probe_unregisters_pseudo:
  assumes "watcher_list s ctx xs" and "w \<in> set xs"
    and "w_active (wmem s w) = -1" and "w_cb (wmem s w) \<noteq> 0"
    and "fst (has_data (w_fd (wmem s w)) s) = 0"
  shows "\<exists>s2. (\<forall>cbs rerun.
                 ml_run_workaround cbs ctx w rerun s =
                   (case call_cb cbs (w_cb (wmem s w)) w (w_arg (wmem s w)) MINILOOP_READ s2 of
                      None \<Rightarrow> None
                    | Some s3 \<Rightarrow>
                        ml_run_workaround cbs ctx (w_next (wmem s w)) (rerun + 1) s3))
              \<and> w_active (wmem s2 w) = 0
              \<and> watcher_list s2 ctx (remove1 w xs)
              \<and> w \<notin> set (remove1 w xs)"
proof -
  let ?s1 = "snd (has_data (w_fd (wmem s w)) s)"
  let ?s2 = "MINILOOP_REMOVE w ctx (upd_w w (\<lambda>x. x\<lparr>w_active := 0\<rparr>) ?s1)"
  from watcher_list_null [OF assms(1)] assms(2) have w: "w \<noteq> NULL" by metis
  have run: "ml_run_workaround cbs ctx w rerun s =
               (case call_cb cbs (w_cb (wmem s w)) w (w_arg (wmem s w)) MINILOOP_READ ?s2 of
                  None \<Rightarrow> None
                | Some s3 \<Rightarrow> ml_run_workaround cbs ctx (w_next (wmem s w)) (rerun + 1) s3)"
    for cbs rerun
    using w assms(3-5)
    by (subst ml_run_workaround.simps)
       (simp add: ml_run_pseudo_def Let_def split_def upd_w_def)
  have "same_links (upd_w w (\<lambda>x. x\<lparr>w_active := 0\<rparr>) ?s1) s"
    by (simp add: same_links_def upd_w_def)
  then have "same_links ?s2 (MINILOOP_REMOVE w ctx s)" by (rule same_links_remove)
  with remove_list [OF assms(1,2)] have "watcher_list ?s2 ctx (remove1 w xs)"
    by (simp add: same_links_list)
  moreover have "w_active (wmem ?s2 w) = 0" by (simp add: upd_w_def)
  moreover from assms(1) have "w \<notin> set (remove1 w xs)"
    by (auto dest: watcher_list_distinct)
  ultimately show ?thesis using run by blast
qed

theorem empty_probe_unregisters_pseudo_witness:
  "watcher_list (ex_pseudo 0) 10 [1] \<and> (1::ptr) \<in> set [1]
   \<and> w_active (wmem (ex_pseudo 0) 1) = -1 \<and> w_cb (wmem (ex_pseudo 0) 1) \<noteq> 0
   \<and> fst (has_data (w_fd (wmem (ex_pseudo 0) 1)) (ex_pseudo 0)) = 0
   \<and> (\<exists>s2. (\<forall>cbs rerun.
                 ml_run_workaround cbs 10 1 rerun (ex_pseudo 0) =
                   (case call_cb cbs (w_cb (wmem (ex_pseudo 0) 1)) 1
                           (w_arg (wmem (ex_pseudo 0) 1)) MINILOOP_READ s2 of
                      None \<Rightarrow> None
                    | Some s3 \<Rightarrow>
                        ml_run_workaround cbs 10 (w_next (wmem (ex_pseudo 0) 1)) (rerun + 1) s3))
              \<and> w_active (wmem s2 1) = 0
              \<and> watcher_list s2 10 (remove1 1 [1])
              \<and> 1 \<notin> set (remove1 (1::ptr) [1]))"
proof -
  have h1: "watcher_list (ex_pseudo 0) 10 [1]"
    by (simp add: watcher_list_def ex_pseudo_def ex_ctx_def w_zero_def)
  have h2: "(1::ptr) \<in> set [1]" by simp
  have h3: "w_active (wmem (ex_pseudo 0) 1) = -1" by (simp add: ex_pseudo_def w_zero_def)
  have h4: "w_cb (wmem (ex_pseudo 0) 1) \<noteq> 0" by (simp add: ex_pseudo_def w_zero_def)
  have h5: "fst (has_data (w_fd (wmem (ex_pseudo 0) 1)) (ex_pseudo 0)) = 0"
    by (simp add: has_data_def syscall_def ex_pseudo_def w_zero_def answer_def Let_def)
  from empty_probe_unregisters_pseudo [OF h1 h2 h3 h4 h5] h1 h2 h3 h4 h5
  show ?thesis by blast
qed

text \<open>
  Against C3 as stated: stopping a pseudo-registered watcher returns 0 and changes nothing;
  the watcher keeps \<^verbatim>\<open>active == -1\<close> and stays the head of the list.
\<close>

theorem stop_leaves_pseudo_active:
  "ml_io_stop 1 (ex_pseudo 5) = Some (0, ex_pseudo 5)
   \<and> w_active (wmem (ex_pseudo 5) 1) = -1 \<and> c_watchers (cmem (ex_pseudo 5) 10) = 1"
  by (simp add: ml_io_stop_def ml_watcher_stop_def ml_watcher_active_def ex_pseudo_def
      ex_ctx_def w_zero_def)

text \<open>
  The list has to be well formed for this. Since a stop leaves a pseudo-registered watcher
  linked, \<^verbatim>\<open>ml_io_start\<close> after \<^verbatim>\<open>ml_io_init\<close> on standard input links the node a
  second time, to itself; an empty probe in that state makes the watcher inactive but
  leaves it the head of the list.
\<close>

lemma empty_probe_on_relinked_watcher:
  "map_option (\<lambda>s. (w_active (wmem s 1), c_watchers (cmem s 10), w_next (wmem s 1)))
     (case ml_io_init 10 1 2 0 0 MINILOOP_READ ex_stdin of
        None \<Rightarrow> None
      | Some (_, s1) \<Rightarrow> map_option snd (ml_io_start 1 s1))
   = Some (-1, 1, 1)
   \<and> map_option (\<lambda>s. (w_active (wmem s 1), c_watchers (cmem s 10)))
       (case ml_io_init 10 1 2 0 0 MINILOOP_READ ex_stdin of
          None \<Rightarrow> None
        | Some (_, s1) \<Rightarrow>
            (case ml_io_start 1 s1 of
               None \<Rightarrow> None
             | Some (_, s2) \<Rightarrow> ml_run_pseudo ex_cbs 10 1 s2))
     = Some (0, 1)"
  by (simp add: ml_io_init_def ml_io_start_def ml_io_set_def ml_io_stop_def ml_watcher_init_def
      ml_watcher_start_def ml_watcher_stop_def ml_watcher_active_def ml_run_pseudo_def
      has_data_def call_cb_def ex_cbs_def
      ex_stdin_def ex_ctx_def w_zero_def ctx_zero_def failure_def answer_def
      syscall_def upd_w_def upd_c_def MINILOOP_INSERT_def MINILOOP_REMOVE_def Let_def
      EPERM_def MINILOOP_READ_def MINILOOP_ONESHOT_def EPOLLIN_def EPOLLONESHOT_def
      STDIN_FILENO_def)

section \<open>Registry coherence\<close>

lemma coherent_lists:
  assumes "registry_coherent s" and "c \<noteq> NULL"
  obtains xs where "watcher_list s c xs"
    and "\<And>w. w \<noteq> NULL \<Longrightarrow> (w \<in> set xs) = (w_active (wmem s w) \<noteq> 0 \<and> w_ctx (wmem s w) = c)"
  using assms unfolding registry_coherent_def by blast

lemma coherent_ctx:
  "registry_coherent s \<Longrightarrow> w \<noteq> NULL \<Longrightarrow> w_active (wmem s w) \<noteq> 0 \<Longrightarrow> w_ctx (wmem s w) \<noteq> NULL"
  unfolding registry_coherent_def by blast

lemma coherent_stop_obs:
  assumes coh: "registry_coherent s" and w: "w \<noteq> NULL" "w_active (wmem s w) \<noteq> 0"
    "w_ctx (wmem s w) = c"
    and links: "same_links s' (MINILOOP_REMOVE w c s)"
    and act: "\<And>y. w_active (wmem s' y) = (if y = w then 0 else w_active (wmem s y))"
    and ctx: "\<And>y. w_ctx (wmem s' y) = w_ctx (wmem s y)"
  shows "registry_coherent s'"
  unfolding registry_coherent_def
proof (intro conjI allI impI)
  fix c0 :: ptr
  assume c0: "c0 \<noteq> NULL"
  from coherent_ctx [OF coh w(1,2)] w(3) have c: "c \<noteq> NULL" by simp
  from coherent_lists [OF coh c] obtain xs where xs: "watcher_list s c xs"
    and mem: "\<And>y. y \<noteq> NULL \<Longrightarrow> (y \<in> set xs) = (w_active (wmem s y) \<noteq> 0 \<and> w_ctx (wmem s y) = c)"
    by blast
  from mem w have win: "w \<in> set xs" by simp
  from xs have dist: "distinct xs" by (auto simp: watcher_list_def dest: dll_distinct)
  show "\<exists>xs. watcher_list s' c0 xs
          \<and> (\<forall>y. y \<noteq> NULL \<longrightarrow>
                (y \<in> set xs) = (w_active (wmem s' y) \<noteq> 0 \<and> w_ctx (wmem s' y) = c0))"
  proof (cases "c0 = c")
    case True
    from remove_list [OF xs win] links have "watcher_list s' c (remove1 w xs)"
      by (simp add: same_links_list)
    moreover have "\<forall>y. y \<noteq> NULL \<longrightarrow>
        (y \<in> set (remove1 w xs)) = (w_active (wmem s' y) \<noteq> 0 \<and> w_ctx (wmem s' y) = c)"
      using dist mem by (auto simp: act ctx)
    ultimately show ?thesis using True by blast
  next
    case False
    from coherent_lists [OF coh c0] obtain ys where ys: "watcher_list s c0 ys"
      and mem0: "\<And>y. y \<noteq> NULL \<Longrightarrow> (y \<in> set ys) = (w_active (wmem s y) \<noteq> 0 \<and> w_ctx (wmem s y) = c0)"
      by blast
    from xs ys have nn: "NULL \<notin> set xs" "NULL \<notin> set ys" by (auto dest: watcher_list_null)
    have disj: "set ys \<inter> set xs = {}"
    proof (rule ccontr)
      assume "set ys \<inter> set xs \<noteq> {}"
      then obtain y where "y \<in> set ys" "y \<in> set xs" by auto
      with nn have "y \<noteq> NULL" by metis
      with mem mem0 \<open>y \<in> set ys\<close> \<open>y \<in> set xs\<close> False show False by auto
    qed
    from remove_list_other [OF xs win False ys disj] links have "watcher_list s' c0 ys"
      by (simp add: same_links_list)
    moreover have "\<forall>y. y \<noteq> NULL \<longrightarrow>
        (y \<in> set ys) = (w_active (wmem s' y) \<noteq> 0 \<and> w_ctx (wmem s' y) = c0)"
      using mem0 w False by (auto simp: act ctx)
    ultimately show ?thesis by blast
  qed
next
  fix y assume "y \<noteq> NULL \<and> w_active (wmem s' y) \<noteq> 0"
  then show "w_ctx (wmem s' y) \<noteq> NULL"
    using coherent_ctx [OF coh, of y] by (auto simp: act ctx split: if_splits)
qed

lemma coherent_start_obs:
  assumes coh: "registry_coherent s" and w: "w \<noteq> NULL" "w_active (wmem s w) = 0"
    "w_ctx (wmem s w) = c" "c \<noteq> NULL"
    and links: "same_links s' (MINILOOP_INSERT w c s)"
    and act: "\<And>y. w_active (wmem s' y) = (if y = w then 1 else w_active (wmem s y))"
    and ctx: "\<And>y. w_ctx (wmem s' y) = w_ctx (wmem s y)"
  shows "registry_coherent s'"
  unfolding registry_coherent_def
proof (intro conjI allI impI)
  fix c0 :: ptr
  assume c0: "c0 \<noteq> NULL"
  from coherent_lists [OF coh w(4)] obtain xs where xs: "watcher_list s c xs"
    and mem: "\<And>y. y \<noteq> NULL \<Longrightarrow> (y \<in> set xs) = (w_active (wmem s y) \<noteq> 0 \<and> w_ctx (wmem s y) = c)"
    by blast
  from mem w have wnot: "w \<notin> set xs" by simp
  show "\<exists>xs. watcher_list s' c0 xs
          \<and> (\<forall>y. y \<noteq> NULL \<longrightarrow>
                (y \<in> set xs) = (w_active (wmem s' y) \<noteq> 0 \<and> w_ctx (wmem s' y) = c0))"
  proof (cases "c0 = c")
    case True
    from insert_list [OF xs wnot w(1)] links have "watcher_list s' c (w # xs)"
      by (simp add: same_links_list)
    moreover have "\<forall>y. y \<noteq> NULL \<longrightarrow>
        (y \<in> set (w # xs)) = (w_active (wmem s' y) \<noteq> 0 \<and> w_ctx (wmem s' y) = c)"
      using mem w by (auto simp: act ctx)
    ultimately show ?thesis using True by blast
  next
    case False
    from coherent_lists [OF coh c0] obtain ys where ys: "watcher_list s c0 ys"
      and mem0: "\<And>y. y \<noteq> NULL \<Longrightarrow> (y \<in> set ys) = (w_active (wmem s y) \<noteq> 0 \<and> w_ctx (wmem s y) = c0)"
      by blast
    from ys have nn: "NULL \<notin> set ys" by (rule watcher_list_null)
    from mem0 w have wn: "w \<notin> set ys" by simp
    have hd: "c_watchers (cmem s c) \<notin> set ys"
    proof
      assume a: "c_watchers (cmem s c) \<in> set ys"
      with nn have n: "c_watchers (cmem s c) \<noteq> NULL" by metis
      with xs have "c_watchers (cmem s c) \<in> set xs"
        by (cases xs) (auto simp: watcher_list_def)
      with a n mem mem0 False show False by auto
    qed
    from insert_list_other [OF ys False wn w(1) hd] links have "watcher_list s' c0 ys"
      by (simp add: same_links_list)
    moreover have "\<forall>y. y \<noteq> NULL \<longrightarrow>
        (y \<in> set ys) = (w_active (wmem s' y) \<noteq> 0 \<and> w_ctx (wmem s' y) = c0)"
      using mem0 w False by (auto simp: act ctx)
    ultimately show ?thesis by blast
  qed
next
  fix y assume "y \<noteq> NULL \<and> w_active (wmem s' y) \<noteq> 0"
  then show "w_ctx (wmem s' y) \<noteq> NULL"
    using coherent_ctx [OF coh, of y] w by (auto simp: act ctx split: if_splits)
qed

lemma coherent_mem:
  assumes "registry_coherent s" and "wmem s' = wmem s"
    and "\<And>c. c_watchers (cmem s' c) = c_watchers (cmem s c)"
  shows "registry_coherent s'"
  using assms by (simp add: registry_coherent_def watcher_list_def)

lemma stop_effect:
  assumes "w \<noteq> NULL" and "0 < w_active (wmem t w)" and "w_ctx (wmem t w) = c" and "c \<noteq> NULL"
  shows "\<exists>r t'. ml_watcher_stop w t = Some (r, t') \<and> stopped w c t t'"
proof -
  let ?t1 = "MINILOOP_REMOVE w c (upd_w w (\<lambda>x. x\<lparr>w_active := 0\<rparr>) t)"
  let ?a = "Epoll_ctl_del (c_fd (cmem ?t1 c)) (w_fd (wmem ?t1 w))"
  have eq: "ml_watcher_stop w t =
              Some (if r_ret (fst (syscall ?a ?t1)) < 0 then -1 else 0, snd (syscall ?a ?t1))"
    using assms
    by (simp add: ml_watcher_stop_def ml_watcher_active_def Let_def split_def upd_w_def)
  have "same_links ?t1 (MINILOOP_REMOVE w c t)"
    by (rule same_links_remove) simp
  then have "same_links (snd (syscall ?a ?t1)) (MINILOOP_REMOVE w c t)"
    by (rule same_links_trans [rotated]) simp
  then have "stopped w c t (snd (syscall ?a ?t1))"
    by (simp add: stopped_def upd_w_def)
  with eq show ?thesis by blast
qed

lemma stopped_frame_before:
  assumes "stopped w c t1 t'" and "wmem t1 = wmem t" and "cmem t1 = cmem t"
    and "kernel t1 = kernel t"
  shows "stopped w c t t'"
proof -
  from assms(2,3) have "same_links t1 t" by (rule same_links_mem)
  then have "same_links (MINILOOP_REMOVE w c t1) (MINILOOP_REMOVE w c t)"
    by (rule same_links_remove)
  moreover from assms(1) have "same_links t' (MINILOOP_REMOVE w c t1)"
    by (simp add: stopped_def)
  ultimately have "same_links t' (MINILOOP_REMOVE w c t)"
    by (rule same_links_trans [rotated])
  with assms show ?thesis by (simp add: stopped_def)
qed

lemma stopped_frame_after:
  "stopped w c t t1 \<Longrightarrow> same_links t' t1
   \<Longrightarrow> (\<And>y. w_active (wmem t' y) = w_active (wmem t1 y))
   \<Longrightarrow> (\<And>y. w_ctx (wmem t' y) = w_ctx (wmem t1 y) \<and> w_type (wmem t' y) = w_type (wmem t1 y))
   \<Longrightarrow> kernel t' = kernel t1
   \<Longrightarrow> stopped w c t t'"
  unfolding stopped_def
  by (auto intro: same_links_trans)

lemma regular_stopped: "regular t \<Longrightarrow> stopped w c t t' \<Longrightarrow> regular t'"
  by (simp add: regular_def stopped_def)

lemma regular_mem:
  "regular s \<Longrightarrow> wmem s' = wmem s \<Longrightarrow> kernel s' = kernel s \<Longrightarrow> regular s'"
  by (simp add: regular_def)

lemma regular_active:
  "regular s \<Longrightarrow> w \<noteq> NULL \<Longrightarrow> w_active (wmem s w) = 0 \<or> w_active (wmem s w) = 1"
  by (simp add: regular_def)

lemma regular_type:
  "regular s \<Longrightarrow> w \<noteq> NULL \<Longrightarrow> w_type (wmem s w) \<noteq> MINILOOP_FS_TYPE"
  by (simp add: regular_def)

lemma coherent_stopped:
  assumes "registry_coherent s" and "w \<noteq> NULL" and "w_active (wmem s w) \<noteq> 0"
    and "w_ctx (wmem s w) = c" and "stopped w c s s'"
  shows "registry_coherent s'"
  using assms(5) unfolding stopped_def
  by (intro coherent_stop_obs [OF assms(1-4)]) simp_all

lemma stop_preserves:
  assumes "registry_coherent s" and "regular s"
  shows "\<exists>r s'. ml_watcher_stop w s = Some (r, s') \<and> registry_coherent s' \<and> regular s'"
proof (cases "w = NULL \<or> ml_watcher_active w s = 0")
  case True
  then have "ml_watcher_stop w s = Some (-1, s\<lparr>errno := EINVAL\<rparr>) \<or> ml_watcher_stop w s = Some (0, s)"
    by (auto simp: ml_watcher_stop_def)
  moreover have "registry_coherent (s\<lparr>errno := EINVAL\<rparr>)"
    by (rule coherent_mem [OF assms(1)]) simp_all
  moreover have "regular (s\<lparr>errno := EINVAL\<rparr>)"
    by (rule regular_mem [OF assms(2)]) simp_all
  ultimately show ?thesis using assms by auto
next
  case False
  then have w: "w \<noteq> NULL" "0 < w_active (wmem s w)"
    by (auto simp: ml_watcher_active_def split: if_splits)
  then have c: "w_ctx (wmem s w) \<noteq> NULL" using coherent_ctx [OF assms(1), of w] by simp
  from stop_effect [OF w refl c] obtain r s' where
    "ml_watcher_stop w s = Some (r, s')" "stopped w (w_ctx (wmem s w)) s s'" by blast
  moreover from this(2) have "registry_coherent s'"
    using w by (intro coherent_stopped [OF assms(1), where w = w]) simp_all
  moreover from \<open>stopped w (w_ctx (wmem s w)) s s'\<close> have "regular s'"
    by (rule regular_stopped [OF assms(2)])
  ultimately show ?thesis by blast
qed

lemma start_preserves:
  assumes "registry_coherent s" and "regular s"
  shows "\<exists>r s'. ml_watcher_start w s = Some (r, s') \<and> registry_coherent s' \<and> regular s'"
proof (cases "w = NULL \<or> w_fd (wmem s w) < 0 \<or> w_ctx (wmem s w) = NULL")
  case True
  then have "ml_watcher_start w s = Some (-1, s\<lparr>errno := EINVAL\<rparr>)"
    by (simp add: ml_watcher_start_def)
  moreover have "registry_coherent (s\<lparr>errno := EINVAL\<rparr>)"
    by (rule coherent_mem [OF assms(1)]) simp_all
  moreover have "regular (s\<lparr>errno := EINVAL\<rparr>)"
    by (rule regular_mem [OF assms(2)]) simp_all
  ultimately show ?thesis by blast
next
  case valid: False
  show ?thesis
  proof (cases "ml_watcher_active w s \<noteq> 0")
    case True
    with valid have "ml_watcher_start w s = Some (0, s)" by (simp add: ml_watcher_start_def)
    with assms show ?thesis by blast
  next
    case False
    with valid have "\<not> 0 < w_active (wmem s w)"
      by (auto simp: ml_watcher_active_def split: if_splits)
    with valid regular_active [OF assms(2), of w] have w0: "w_active (wmem s w) = 0"
      by auto
    let ?c = "w_ctx (wmem s w)"
    let ?a = "Epoll_ctl_add (c_fd (cmem s ?c)) (w_fd (wmem s w)) (w_events (wmem s w) OR EPOLLRDHUP) w"
    let ?s1 = "snd (syscall ?a s)"
    have coh1: "registry_coherent ?s1"
      by (rule coherent_mem [OF assms(1)]) simp_all
    have reg1: "regular ?s1"
      by (rule regular_mem [OF assms(2)]) simp_all
    show ?thesis
    proof (cases "r_ret (fst (syscall ?a s)) < 0")
      case True
      then have "errno ?s1 \<noteq> EPERM"
        using assms(2) by (simp add: syscall_def Let_def regular_def)
      with True valid False have "ml_watcher_start w s = Some (-1, ?s1)"
        by (simp add: ml_watcher_start_def Let_def split_def)
      with coh1 reg1 show ?thesis by blast
    next
      case ok: False
      let ?s' = "MINILOOP_INSERT w ?c (upd_w w (\<lambda>x. x\<lparr>w_active := 1\<rparr>) ?s1)"
      from ok valid False have eq: "ml_watcher_start w s = Some (0, ?s')"
        by (simp add: ml_watcher_start_def Let_def split_def)
      have "same_links (upd_w w (\<lambda>x. x\<lparr>w_active := 1\<rparr>) ?s1) s"
        by (simp add: same_links_def upd_w_def)
      with valid have links: "same_links ?s' (MINILOOP_INSERT w ?c s)"
        by (intro same_links_insert) simp_all
      have "registry_coherent ?s'"
        using valid w0 links
        by (intro coherent_start_obs [OF assms(1), where w = w and c = ?c])
           (simp_all add: upd_w_def)
      moreover have "regular ?s'"
        using assms(2) by (simp add: regular_def upd_w_def)
      ultimately show ?thesis using eq by blast
    qed
  qed
qed

lemma exit_stop_effect:
  assumes "w \<noteq> NULL" and "0 < w_active (wmem t w)" and "w_ctx (wmem t w) = c" and "c \<noteq> NULL"
    and "w_type (wmem t w) \<noteq> MINILOOP_FS_TYPE"
    and X: "x_timer_stop X = ml_timer_stop" "x_event_stop X = ml_event_stop"
  shows "\<exists>r t'. ml_exit_stop X w t = Some (r, t') \<and> stopped w c t t'"
proof (cases "w_type (wmem t w)")
  case MINILOOP_IO_TYPE
  with stop_effect [OF assms(1-4)] show ?thesis
    by (simp add: ml_exit_stop_def ml_io_stop_def)
next
  case MINILOOP_SIGNAL_TYPE
  from stop_effect [OF assms(1-4)] obtain r t1 where
    st: "ml_watcher_stop w t = Some (r, t1)" "stopped w c t t1" by blast
  let ?t2 = "upd_w w (\<lambda>x. x\<lparr>w_fd := -1\<rparr>) (snd (syscall (Close (w_fd (wmem t1 w))) t1))"
  have "stopped w c t ?t2"
    by (rule stopped_frame_after [OF st(2)]) (simp_all add: same_links_def upd_w_def)
  with st assms(1,2) MINILOOP_SIGNAL_TYPE show ?thesis
    by (auto simp: ml_exit_stop_def ml_signal_stop_def ml_watcher_active_def)
next
  case MINILOOP_TIMER_TYPE
  let ?t0 = "snd (syscall (Timerfd_disarm (w_fd (wmem t w))) t)"
  have "\<exists>r t'. ml_watcher_stop w ?t0 = Some (r, t') \<and> stopped w c ?t0 t'"
    using assms(1-4) by (intro stop_effect) simp_all
  then obtain r t1 where st: "ml_watcher_stop w ?t0 = Some (r, t1)" "stopped w c ?t0 t1"
    by blast
  from st(2) have "stopped w c t t1" by (rule stopped_frame_before) simp_all
  then have "stopped w c t (snd (syscall (Close (w_fd (wmem t1 w))) t1))"
    by (rule stopped_frame_after) (simp_all add: same_links_def)
  with st assms(1) MINILOOP_TIMER_TYPE X show ?thesis
    by (simp add: ml_exit_stop_def ml_timer_stop_def)
next
  case MINILOOP_FS_TYPE
  with assms(5) show ?thesis by simp
next
  case MINILOOP_EVENT_TYPE
  from stop_effect [OF assms(1-4)] obtain r t1 where
    st: "ml_watcher_stop w t = Some (r, t1)" "stopped w c t t1" by blast
  from st(2) have "stopped w c t (snd (syscall (Close (w_fd (wmem t1 w))) t1))"
    by (rule stopped_frame_after) (simp_all add: same_links_def)
  with st assms(1) MINILOOP_EVENT_TYPE X show ?thesis
    by (simp add: ml_exit_stop_def ml_event_stop_def)
qed

lemma remove_twice:
  assumes "watcher_list s c (x # xs)"
  shows "same_links (MINILOOP_REMOVE x c (MINILOOP_REMOVE x c s)) (MINILOOP_REMOVE x c s)"
proof -
  from assms have d: "distinct (x # xs)" by (rule watcher_list_distinct)
  from assms have "w_next (wmem s x) = NULL \<or> w_next (wmem s x) \<in> set xs"
    by (cases xs) (auto simp: watcher_list_def)
  moreover from assms have "x \<noteq> NULL" by (simp add: watcher_list_def)
  ultimately have "w_next (wmem s x) \<noteq> x" using d by auto
  then show ?thesis
    by (simp add: same_links_def remove_next remove_prev remove_head)
qed

lemma exit_step:
  assumes coh: "registry_coherent s" and reg: "regular s" and c: "c \<noteq> NULL"
    and xs: "watcher_list s c (x # xs)"
    and X: "x_timer_stop X = ml_timer_stop" "x_event_stop X = ml_event_stop"
  shows "\<exists>r s2. ml_watcher_active x (MINILOOP_REMOVE x c s) \<noteq> 0
           \<and> ml_exit_stop X x (MINILOOP_REMOVE x c s) = Some (r, s2)
           \<and> registry_coherent s2 \<and> regular s2 \<and> watcher_list s2 c xs
           \<and> c_watchers (cmem s2 c) = w_next (wmem s x)"
proof -
  let ?s1 = "MINILOOP_REMOVE x c s"
  from xs have x: "x \<noteq> NULL" "c_watchers (cmem s c) = x" by (auto simp: watcher_list_def)
  from coherent_lists [OF coh c] obtain ys where ys: "watcher_list s c ys"
    and mem: "\<And>w. w \<noteq> NULL \<Longrightarrow> (w \<in> set ys) = (w_active (wmem s w) \<noteq> 0 \<and> w_ctx (wmem s w) = c)"
    by blast
  from ys xs have "ys = x # xs" by (rule watcher_list_fun)
  with mem [OF x(1)] have act: "w_active (wmem s x) \<noteq> 0" and cx: "w_ctx (wmem s x) = c" by auto
  with regular_active [OF reg x(1)] have a1: "w_active (wmem s x) = 1" by auto
  have active: "ml_watcher_active x ?s1 \<noteq> 0"
    using a1 x by (simp add: ml_watcher_active_def)
  have "\<exists>r t'. ml_exit_stop X x ?s1 = Some (r, t') \<and> stopped x c ?s1 t'"
    using x a1 cx c regular_type [OF reg x(1)] X by (intro exit_stop_effect) simp_all
  then obtain r s2 where st: "ml_exit_stop X x ?s1 = Some (r, s2)" "stopped x c ?s1 s2"
    by blast
  from st(2) have l2: "same_links s2 (MINILOOP_REMOVE x c ?s1)" by (simp add: stopped_def)
  from l2 remove_twice [OF xs] have links: "same_links s2 ?s1" by (rule same_links_trans)
  have "registry_coherent s2"
    using st(2) by (intro coherent_stop_obs [OF coh x(1) act cx links]) (simp_all add: stopped_def)
  moreover have "regular ?s1" using reg by (simp add: regular_def)
  then have "regular s2" using st(2) by (rule regular_stopped)
  moreover from remove_list [OF xs, of x] have "watcher_list ?s1 c xs" by simp
  with links have "watcher_list s2 c xs" by (simp add: same_links_list)
  moreover from links x have "c_watchers (cmem s2 c) = w_next (wmem s x)"
    by (simp add: same_links_def remove_head)
  ultimately show ?thesis using active st(1) by blast
qed

lemma exit_loop_preserves:
  assumes "registry_coherent s" and "regular s" and "c \<noteq> NULL" and "watcher_list s c xs"
    and X: "x_timer_stop X = ml_timer_stop" "x_event_stop X = ml_event_stop"
  shows "\<exists>s'. ml_exit_loop X c (c_watchers (cmem s c)) s = Some s'
           \<and> registry_coherent s' \<and> regular s' \<and> c_watchers (cmem s' c) = NULL"
  using assms(1,2,4)
proof (induction xs arbitrary: s)
  case Nil
  then have "c_watchers (cmem s c) = NULL" by (simp add: watcher_list_def)
  with Nil show ?case by (subst ml_exit_loop.simps) simp
next
  case (Cons x xs)
  from Cons.prems(3) have x: "x \<noteq> NULL" "c_watchers (cmem s c) = x"
    by (auto simp: watcher_list_def)
  from exit_step [OF Cons.prems(1,2) assms(3) Cons.prems(3) X] obtain r s2 where
    s2: "ml_watcher_active x (MINILOOP_REMOVE x c s) \<noteq> 0"
      "ml_exit_stop X x (MINILOOP_REMOVE x c s) = Some (r, s2)"
      "registry_coherent s2" "regular s2" "watcher_list s2 c xs"
      "c_watchers (cmem s2 c) = w_next (wmem s x)" by blast
  from Cons.IH [OF s2(3,4,5)] obtain s' where
    s': "ml_exit_loop X c (c_watchers (cmem s2 c)) s2 = Some s'"
      "registry_coherent s'" "regular s'" "c_watchers (cmem s' c) = NULL" by blast
  have "ml_exit_loop X c (c_watchers (cmem s c)) s = Some s'"
    using x s2(1,2,6) s'(1) by (subst ml_exit_loop.simps) (simp add: Let_def)
  with s' show ?case by blast
qed

lemma exit_preserves:
  assumes "registry_coherent s" and "regular s"
    and X: "x_timer_stop X = ml_timer_stop" "x_event_stop X = ml_event_stop"
  shows "\<exists>r s'. ml_exit X c s = Some (r, s') \<and> registry_coherent s' \<and> regular s'"
proof (cases "c = NULL")
  case True
  then have "ml_exit X c s = Some (-1, s\<lparr>errno := EINVAL\<rparr>)" by (simp add: ml_exit_def)
  moreover have "registry_coherent (s\<lparr>errno := EINVAL\<rparr>)"
    by (rule coherent_mem [OF assms(1)]) simp_all
  moreover have "regular (s\<lparr>errno := EINVAL\<rparr>)"
    by (rule regular_mem [OF assms(2)]) simp_all
  ultimately show ?thesis by blast
next
  case False
  from coherent_lists [OF assms(1) False] obtain xs where "watcher_list s c xs" by blast
  from exit_loop_preserves [OF assms(1,2) False this X] obtain s1 where
    s1: "ml_exit_loop X c (c_watchers (cmem s c)) s = Some s1"
      "registry_coherent s1" "regular s1" "c_watchers (cmem s1 c) = NULL" by blast
  let ?s3 = "upd_c c (\<lambda>x. x\<lparr>c_running := 0\<rparr>) (upd_c c (\<lambda>x. x\<lparr>c_watchers := NULL\<rparr>) s1)"
  let ?s4 = "if c_fd (cmem ?s3 c) > -1 then snd (syscall (Close (c_fd (cmem ?s3 c))) ?s3) else ?s3"
  let ?s5 = "upd_c c (\<lambda>x. x\<lparr>c_fd := -1\<rparr>) ?s4"
  from False s1(1) have "ml_exit X c s = Some (0, ?s5)"
    by (simp add: ml_exit_def Let_def)
  moreover have "registry_coherent ?s5"
    using s1(4) by (intro coherent_mem [OF s1(2)]) (simp_all add: upd_c_def)
  moreover have "regular ?s5"
    by (rule regular_mem [OF s1(3)]) (simp_all add: upd_c_def)
  ultimately show ?thesis by blast
qed

text \<open>
  C6, as the code has it: from a coherent registry without the standard-input workaround,
  every sequence of generic starts and stops of watchers and of exits of contexts returns
  and leaves a coherent registry. Timer and event watchers are stopped at exit as the spec
  describes it.
\<close>

theorem registry_coherent_without_pseudo:
  assumes "registry_coherent s" and "regular s"
  shows "\<exists>s'. apply_ops (X\<lparr>x_timer_stop := ml_timer_stop, x_event_stop := ml_event_stop\<rparr>) ops s
                = Some s' \<and> registry_coherent s'"
proof -
  let ?X = "X\<lparr>x_timer_stop := ml_timer_stop, x_event_stop := ml_event_stop\<rparr>"
  have step: "\<exists>s'. apply_op ?X a s = Some s' \<and> registry_coherent s' \<and> regular s'"
    if "registry_coherent s" "regular s" for a s
  proof (cases a)
    case (Start w)
    with start_preserves [OF that, of w] show ?thesis by auto
  next
    case (Stop w)
    with stop_preserves [OF that, of w] show ?thesis by auto
  next
    case (Exit c)
    have "\<exists>r s'. ml_exit ?X c s = Some (r, s') \<and> registry_coherent s' \<and> regular s'"
      by (rule exit_preserves [OF that]) simp_all
    with Exit show ?thesis by auto
  qed
  have "\<exists>s'. apply_ops ?X ops s = Some s' \<and> registry_coherent s' \<and> regular s'"
    using assms
  proof (induction ops arbitrary: s)
    case Nil
    then show ?case by simp
  next
    case (Cons a ops)
    from step [OF Cons.prems, of a] obtain s1 where
      s1: "apply_op ?X a s = Some s1" "registry_coherent s1" "regular s1" by blast
    from Cons.IH [OF s1(2,3)] s1(1) show ?case by simp
  qed
  then show ?thesis by blast
qed

lemma ex_idle_coherent: "registry_coherent ex_idle"
  unfolding registry_coherent_def
proof (intro conjI allI impI)
  fix c :: ptr
  have "watcher_list ex_idle c []"
    by (simp add: watcher_list_def ex_idle_def ex_ctx_def ctx_zero_def)
  moreover have "\<forall>w. w \<noteq> NULL \<longrightarrow> (w \<in> set []) = (w_active (wmem ex_idle w) \<noteq> 0 \<and> w_ctx (wmem ex_idle w) = c)"
    by (simp add: ex_idle_def w_zero_def)
  ultimately show "\<exists>xs. watcher_list ex_idle c xs \<and>
      (\<forall>w. w \<noteq> NULL \<longrightarrow> (w \<in> set xs) = (w_active (wmem ex_idle w) \<noteq> 0 \<and> w_ctx (wmem ex_idle w) = c))"
    by blast
next
  fix w assume "w \<noteq> NULL \<and> w_active (wmem ex_idle w) \<noteq> 0"
  then show "w_ctx (wmem ex_idle w) \<noteq> NULL" by (simp add: ex_idle_def w_zero_def split: if_splits)
qed

lemma ex_idle_regular: "regular ex_idle"
  by (simp add: regular_def ex_idle_def w_zero_def answer_def)

theorem registry_coherent_without_pseudo_witness:
  "registry_coherent ex_idle \<and> regular ex_idle
   \<and> (\<exists>s'. apply_ops (ex_ops\<lparr>x_timer_stop := ml_timer_stop, x_event_stop := ml_event_stop\<rparr>)
              [Start 1, Start 2, Stop 1, Exit 10] ex_idle = Some s'
          \<and> registry_coherent s')"
  using registry_coherent_without_pseudo [OF ex_idle_coherent ex_idle_regular]
    ex_idle_coherent ex_idle_regular by blast

text \<open>
  Against C6 as stated: the kernel refuses to register the watcher of standard input, the
  start makes it pseudo-registered, and \<^verbatim>\<open>ml_exit\<close> takes it off the list but leaves
  \<^verbatim>\<open>active == -1\<close>.
\<close>

theorem exit_leaves_pseudo_active:
  "map_option (\<lambda>s. (w_active (wmem s 1), c_watchers (cmem s 10)))
     (apply_ops ex_ops [Start 1, Exit 10] ex_stdin) = Some (-1, NULL)"
  by (simp add: ml_watcher_start_def ml_watcher_active_def ml_exit_def ml_exit_loop.simps
      ex_stdin_def ex_ctx_def w_zero_def ctx_zero_def failure_def answer_def
      syscall_def upd_w_def upd_c_def MINILOOP_INSERT_def MINILOOP_REMOVE_def Let_def
      EPERM_def MINILOOP_READ_def STDIN_FILENO_def)

end
